theory Spec2Isabelle
  imports Main "HOL-Library.Word"
begin

unbundle bit_operations_syntax

section \<open>Machine model\<close>

text \<open>
  The development embeds the macOS hooking engine of RED4ext: the Detours-compatible
  backend of \<^verbatim>\<open>Platform/Hooking.cpp\<close> (in both of its build variants), the RAII class
  \<^verbatim>\<open>DetourTransaction\<close>, the vtable hook \<^verbatim>\<open>GameStateHook\<close> and the registry
  \<^verbatim>\<open>HookingSystem\<close>. \<^verbatim>\<open>RED4EXT_PLATFORM_MACOS\<close> is taken as defined throughout.

  Pointers are 64-bit words and \<^verbatim>\<open>nullptr\<close> is 0. The process state that the modelled code
  reads and writes is the record \<open>world\<close>: the file-scope globals of \<^verbatim>\<open>Hooking.cpp\<close>, a
  byte-addressed memory for code, a memory of pointer-sized cells for everything reached
  through a \<^verbatim>\<open>void**\<close> (output slots, vtable entries), and the warnings and errors sent
  to the log. Code bytes and pointer cells are kept as two disjoint memories.

  Whatever the operating system or foreign code decides is read from \<open>os_env\<close>: every
  fallible call takes the answer stored for the current value of the counter \<open>os_calls\<close>
  and advances the counter, so an environment fixes an arbitrary sequence of answers.

  Left out, because nothing modelled here reads it: trace, debug and info log lines,
  instruction-cache invalidation, the protection bits of pages, and the suspension and
  resumption of threads in \<^verbatim>\<open>DetourTransaction\<close> (\<^verbatim>\<open>QueueThreadsForUpdate\<close> and the resume
  loops of \<^verbatim>\<open>Commit\<close> and \<^verbatim>\<open>Abort\<close>), which touch only Mach thread ports.
\<close>

type_synonym addr = "64 word"
type_synonym byte = "8 word"
type_synonym int32 = "32 word"

abbreviation NO_ERROR :: int32 where
  "NO_ERROR \<equiv> 0"

abbreviation MAP_FAILED :: addr where
  "MAP_FAILED \<equiv> - 1"

datatype log_level = LogWarn | LogError

record Trampoline =
  t_target :: addr
  t_detour :: addr
  t_original :: addr
  trampolineMem :: addr
  trampolineSize :: "64 word"

record os_env =
  use_frida_gadget :: bool
  page_size :: "64 word"
  os_ok :: "nat \<Rightarrow> bool"
  os_mmap :: "nat \<Rightarrow> addr"
  os_symbol :: "nat \<Rightarrow> addr option"
  os_handler :: "nat \<Rightarrow> bool"

record world =
  g_inTransaction :: bool
  g_hookCount :: int32
  g_trampolines :: "Trampoline list"
  code :: "addr \<Rightarrow> byte"
  mappings :: "addr list"
  ptr_slots :: "addr \<Rightarrow> addr"
  invoked :: "addr list"
  logged :: "(log_level \<times> string) list"
  os_calls :: nat

definition Log_warn :: "string \<Rightarrow> world \<Rightarrow> world" where
  "Log_warn msg w = w\<lparr>logged := logged w @ [(LogWarn, msg)]\<rparr>"

definition Log_error :: "string \<Rightarrow> world \<Rightarrow> world" where
  "Log_error msg w = w\<lparr>logged := logged w @ [(LogError, msg)]\<rparr>"

text \<open>One fallible system call: its answer, and the world with the counter advanced.\<close>

definition os_call :: "os_env \<Rightarrow> world \<Rightarrow> bool \<times> world" where
  "os_call env w = (os_ok env (os_calls w), w\<lparr>os_calls := Suc (os_calls w)\<rparr>)"

text \<open>
  \<^verbatim>\<open>mmap(NULL, size, PROT_READ | PROT_WRITE, MAP_PRIVATE | MAP_ANONYMOUS, -1, 0)\<close>:
  the environment answers with an address or with \<^verbatim>\<open>MAP_FAILED\<close>; a fresh mapping is
  recorded in \<open>mappings\<close>.
\<close>

definition mmap :: "os_env \<Rightarrow> world \<Rightarrow> addr \<times> world" where
  "mmap env w =
     (let p = os_mmap env (os_calls w) in
      if p = MAP_FAILED then (p, w\<lparr>os_calls := Suc (os_calls w)\<rparr>)
      else (p, w\<lparr>mappings := mappings w @ [p], os_calls := Suc (os_calls w)\<rparr>))"

definition munmap :: "addr \<Rightarrow> world \<Rightarrow> world" where
  "munmap p w = w\<lparr>mappings := remove1 p (mappings w)\<rparr>"

subsection \<open>Bytes in memory (little endian, as on ARM64)\<close>

fun write_bytes :: "(addr \<Rightarrow> byte) \<Rightarrow> addr \<Rightarrow> byte list \<Rightarrow> (addr \<Rightarrow> byte)" where
  "write_bytes m a [] = m"
| "write_bytes m a (b # bs) = write_bytes (m(a := b)) (a + 1) bs"

fun read_bytes :: "(addr \<Rightarrow> byte) \<Rightarrow> addr \<Rightarrow> nat \<Rightarrow> byte list" where
  "read_bytes m a 0 = []"
| "read_bytes m a (Suc n) = m a # read_bytes m (a + 1) n"

definition le_bytes32 :: "32 word \<Rightarrow> byte list" where
  "le_bytes32 v = [ucast v, ucast (drop_bit 8 v), ucast (drop_bit 16 v), ucast (drop_bit 24 v)]"

definition le_bytes64 :: "64 word \<Rightarrow> byte list" where
  "le_bytes64 v =
     [ucast v, ucast (drop_bit 8 v), ucast (drop_bit 16 v), ucast (drop_bit 24 v),
      ucast (drop_bit 32 v), ucast (drop_bit 40 v), ucast (drop_bit 48 v), ucast (drop_bit 56 v)]"

section \<open>Platform/MacOS.cpp\<close>

text \<open>
  \<^verbatim>\<open>Platform::ProtectMemory\<close> tries \<^verbatim>\<open>vm_protect\<close> with \<^verbatim>\<open>VM_PROT_COPY\<close>, then
  \<^verbatim>\<open>mach_vm_protect\<close>, then \<^verbatim>\<open>mprotect\<close>, and reports an error when all three fail.
  The old protection it can hand back is not tracked.
\<close>

definition ProtectMemory :: "os_env \<Rightarrow> addr \<Rightarrow> 64 word \<Rightarrow> world \<Rightarrow> bool \<times> world" where
  "ProtectMemory env aAddress aSize w =
     (case os_call env w of
        (True, w1) \<Rightarrow> (True, w1)
      | (False, w1) \<Rightarrow>
          (case os_call env w1 of
             (True, w2) \<Rightarrow> (True, w2)
           | (False, w2) \<Rightarrow>
               (case os_call env w2 of
                  (True, w3) \<Rightarrow> (True, w3)
                | (False, w3) \<Rightarrow>
                    (False, Log_error ''[Platform] All protection change methods failed'' w3))))"

section \<open>Platform/Hooking.cpp\<close>

text \<open>
  The file has two variants, selected by the macro \<^verbatim>\<open>RED4EXT_USE_FRIDA_GADGET\<close> (defined
  in the file as it stands; the file says to comment it out for native hooks). The macro
  is the field \<open>use_frida_gadget\<close> of the environment. In the Frida Gadget variant the
  globals are \<open>g_inTransaction\<close> and \<open>g_hookCount\<close>; in the native variant they are
  \<open>g_inTransaction\<close> and \<open>g_trampolines\<close>.
\<close>

definition EncodeLdrX16Imm :: "64 word \<Rightarrow> 32 word" where
  "EncodeLdrX16Imm imm = 0x58000050"

definition EncodeBrX16 :: "32 word" where
  "EncodeBrX16 = 0xD61F0200"

definition AlignToPage :: "os_env \<Rightarrow> 64 word \<Rightarrow> 64 word" where
  "AlignToPage env sz = (sz + page_size env - 1) AND NOT (page_size env - 1)"

text \<open>
  The 16-byte jump sequence written both into a trampoline and over a target:
  \<^verbatim>\<open>LDR x16, #8\<close>, \<^verbatim>\<open>BR x16\<close>, then the 8-byte destination.
\<close>

definition jump_sequence :: "addr \<Rightarrow> byte list" where
  "jump_sequence dest = le_bytes32 (EncodeLdrX16Imm 8) @ le_bytes32 EncodeBrX16 @ le_bytes64 dest"

text \<open>\<^verbatim>\<open>~Trampoline\<close>: unmap the trampoline unless it is \<^verbatim>\<open>MAP_FAILED\<close> or null.\<close>

definition Trampoline_dtor :: "Trampoline \<Rightarrow> world \<Rightarrow> world" where
  "Trampoline_dtor t w =
     (if trampolineMem t \<noteq> MAP_FAILED \<and> trampolineMem t \<noteq> 0 then munmap (trampolineMem t) w else w)"

text \<open>\<^verbatim>\<open>g_trampolines.clear()\<close>: every element is destroyed.\<close>

definition clear_trampolines :: "world \<Rightarrow> world" where
  "clear_trampolines w = (fold Trampoline_dtor (g_trampolines w) w)\<lparr>g_trampolines := []\<rparr>"

text \<open>\<^verbatim>\<open>g_trampolines.erase(it)\<close> for the iterator found by \<^verbatim>\<open>std::find_if\<close>.\<close>

fun erase_first :: "('a \<Rightarrow> bool) \<Rightarrow> 'a list \<Rightarrow> 'a list" where
  "erase_first P [] = []"
| "erase_first P (x # xs) = (if P x then xs else x # erase_first P xs)"

definition DetourTransactionBegin :: "os_env \<Rightarrow> world \<Rightarrow> int32 \<times> world" where
  "DetourTransactionBegin env w =
     (if g_inTransaction w then (- 1, w)
      else (NO_ERROR, w\<lparr>g_inTransaction := True\<rparr>))"

definition DetourTransactionCommit :: "os_env \<Rightarrow> world \<Rightarrow> int32 \<times> world" where
  "DetourTransactionCommit env w =
     (if \<not> g_inTransaction w then (- 1, w)
      else (NO_ERROR, w\<lparr>g_inTransaction := False\<rparr>))"

definition DetourTransactionAbort :: "os_env \<Rightarrow> world \<Rightarrow> int32 \<times> world" where
  "DetourTransactionAbort env w =
     (if \<not> g_inTransaction w then (- 1, w)
      else if use_frida_gadget env then
        (NO_ERROR, w\<lparr>g_inTransaction := False, g_hookCount := 0\<rparr>)
      else
        (NO_ERROR, (clear_trampolines w)\<lparr>g_inTransaction := False\<rparr>))"

text \<open>
  \<^verbatim>\<open>DetourAttach(void** ppPointer, void* pDetour)\<close>. The in-out argument is passed by
  value and handed back: the second component of the result is \<^verbatim>\<open>*ppPointer\<close> on return.
\<close>

definition DetourAttach_frida :: "addr \<Rightarrow> addr \<Rightarrow> world \<Rightarrow> int32 \<times> addr \<times> world" where
  "DetourAttach_frida pPointer pDetour w =
     (if \<not> g_inTransaction w then
        (- 1, pPointer, Log_error ''[Hooking] DetourAttach failed: not in transaction'' w)
      else
        let pTarget = pPointer in
        if pTarget = 0 \<or> pDetour = 0 then
          (- 1, pPointer, Log_error ''[Hooking] DetourAttach failed: null pointer'' w)
        else
          (NO_ERROR, pPointer, w\<lparr>g_hookCount := g_hookCount w + 1\<rparr>))"

definition DetourAttach_native :: "os_env \<Rightarrow> addr \<Rightarrow> addr \<Rightarrow> world \<Rightarrow> int32 \<times> addr \<times> world" where
  "DetourAttach_native env pPointer pDetour w =
     (if \<not> g_inTransaction w then
        (- 1, pPointer, Log_error ''[Hooking] DetourAttach failed: not in transaction'' w)
      else
        let pTarget = pPointer in
        if pTarget = 0 \<or> pDetour = 0 then
          (- 1, pPointer, Log_error ''[Hooking] DetourAttach failed: null pointer'' w)
        else
          let trampolineSize = AlignToPage env 16 in
          (case mmap env w of (pTrampolineMem, w1) \<Rightarrow>
             if pTrampolineMem = MAP_FAILED then
               (- 1, pPointer, Log_error ''[Hooking] DetourAttach failed: mmap RW failed'' w1)
             else
               let w2 = w1\<lparr>code := write_bytes (code w1) pTrampolineMem (jump_sequence pTarget)\<rparr> in
               (case os_call env w2 of
                  (False, w3) \<Rightarrow>
                    (- 1, pPointer,
                     munmap pTrampolineMem
                       (Log_error ''[Hooking] DetourAttach failed: mprotect to RX failed'' w3))
                | (True, w3) \<Rightarrow>
                    (case ProtectMemory env pTarget 16 w3 of
                       (False, w4) \<Rightarrow>
                         (- 1, pPointer,
                          munmap pTrampolineMem
                            (Log_error ''[Hooking] DetourAttach failed: ProtectMemory failed'' w4))
                     | (True, w4) \<Rightarrow>
                         let w5 = w4\<lparr>code := write_bytes (code w4) pTarget (jump_sequence pDetour)\<rparr>;
                             w6 = snd (ProtectMemory env pTarget 16 w5);
                             w7 = w6\<lparr>g_trampolines := g_trampolines w6 @
                                    [\<lparr>t_target = pTarget, t_detour = pDetour, t_original = pTarget,
                                      trampolineMem = pTrampolineMem,
                                      trampolineSize = trampolineSize\<rparr>]\<rparr>
                         in (NO_ERROR, pTrampolineMem, w7)))))"

definition DetourAttach :: "os_env \<Rightarrow> addr \<Rightarrow> addr \<Rightarrow> world \<Rightarrow> int32 \<times> addr \<times> world" where
  "DetourAttach env pPointer pDetour w =
     (if use_frida_gadget env then DetourAttach_frida pPointer pDetour w
      else DetourAttach_native env pPointer pDetour w)"

definition DetourDetach_frida :: "addr \<Rightarrow> addr \<Rightarrow> world \<Rightarrow> int32 \<times> addr \<times> world" where
  "DetourDetach_frida pPointer pDetour w =
     (if \<not> g_inTransaction w then (- 1, pPointer, w) else (NO_ERROR, pPointer, w))"

definition DetourDetach_native :: "os_env \<Rightarrow> addr \<Rightarrow> addr \<Rightarrow> world \<Rightarrow> int32 \<times> addr \<times> world" where
  "DetourDetach_native env pPointer pDetour w =
     (if \<not> g_inTransaction w then (- 1, pPointer, w)
      else
        let pTrampoline = pPointer in
        if pTrampoline = 0 \<or> pDetour = 0 then (- 1, pPointer, w)
        else
          (case find (\<lambda>t. trampolineMem t = pTrampoline \<and> t_detour t = pDetour) (g_trampolines w) of
             None \<Rightarrow> (- 1, pPointer, w)
           | Some trampoline \<Rightarrow>
               let pTarget = t_target trampoline in
               (case ProtectMemory env pTarget 16 w of
                  (False, w1) \<Rightarrow> (- 1, pPointer, w1)
                | (True, w1) \<Rightarrow>
                    let w2 = snd (ProtectMemory env pTarget 16 w1);
                        w3 = Trampoline_dtor trampoline
                               (w2\<lparr>g_trampolines :=
                                     erase_first (\<lambda>t. trampolineMem t = pTrampoline \<and> t_detour t = pDetour)
                                       (g_trampolines w2)\<rparr>)
                    in (NO_ERROR, pTarget, w3))))"

definition DetourDetach :: "os_env \<Rightarrow> addr \<Rightarrow> addr \<Rightarrow> world \<Rightarrow> int32 \<times> addr \<times> world" where
  "DetourDetach env pPointer pDetour w =
     (if use_frida_gadget env then DetourDetach_frida pPointer pDetour w
      else DetourDetach_native env pPointer pDetour w)"

section \<open>DetourTransaction.cpp\<close>

datatype State = Invalid | Started | Committed | Aborted | Failed

record DetourTransaction =
  m_state :: State

definition SetState :: "State \<Rightarrow> DetourTransaction \<Rightarrow> DetourTransaction" where
  "SetState aState t = t\<lparr>m_state := aState\<rparr>"

definition DetourTransaction_ctor :: "os_env \<Rightarrow> world \<Rightarrow> DetourTransaction \<times> world" where
  "DetourTransaction_ctor env w =
     (let t = \<lparr>m_state = Invalid\<rparr> in
      case DetourTransactionBegin env w of (result, w1) \<Rightarrow>
        if result = NO_ERROR then (SetState Started t, w1)
        else (t, Log_error ''Could not start the detour transaction'' w1))"

definition IsValid :: "DetourTransaction \<Rightarrow> bool" where
  "IsValid t = (m_state t \<noteq> Invalid)"

definition DetourTransaction_Commit ::
  "os_env \<Rightarrow> DetourTransaction \<Rightarrow> world \<Rightarrow> bool \<times> DetourTransaction \<times> world" where
  "DetourTransaction_Commit env t w =
     (if m_state t \<noteq> Started \<and> m_state t \<noteq> Failed then
        (case m_state t of
           Invalid \<Rightarrow> (False, t, Log_warn ''The transaction is in an invalid state'' w)
         | Committed \<Rightarrow> (False, t, Log_warn ''The transaction is already committed'' w)
         | Aborted \<Rightarrow> (False, t, Log_warn ''The transaction is aborted, can not commit it'' w)
         | _ \<Rightarrow> (False, t, Log_warn ''Unknown transaction state'' w))
      else
        case DetourTransactionCommit env w of (result, w1) \<Rightarrow>
          if result \<noteq> NO_ERROR then
            (False, t, Log_error ''Could not commit the transaction'' w1)
          else (True, SetState Committed t, w1))"

definition DetourTransaction_Abort ::
  "os_env \<Rightarrow> DetourTransaction \<Rightarrow> world \<Rightarrow> bool \<times> DetourTransaction \<times> world" where
  "DetourTransaction_Abort env t w =
     (if m_state t \<noteq> Started \<and> m_state t \<noteq> Failed then
        (case m_state t of
           Invalid \<Rightarrow> (False, t, Log_warn ''The transaction is in an invalid state'' w)
         | Committed \<Rightarrow> (False, t, Log_warn ''The transaction is committed, can not abort it'' w)
         | Aborted \<Rightarrow> (False, t, Log_warn ''The transaction is already aborted'' w)
         | _ \<Rightarrow> (False, t, Log_warn ''Unknown transaction state'' w))
      else
        case DetourTransactionAbort env w of (result, w1) \<Rightarrow>
          if result \<noteq> NO_ERROR then
            (False, SetState Failed t, Log_error ''Could not abort the transaction'' w1)
          else (True, SetState Aborted t, w1))"

text \<open>
  \<^verbatim>\<open>~DetourTransaction\<close>. The object is gone afterwards; its last state is handed back so
  that it can be observed.
\<close>

definition DetourTransaction_dtor ::
  "os_env \<Rightarrow> DetourTransaction \<Rightarrow> world \<Rightarrow> DetourTransaction \<times> world" where
  "DetourTransaction_dtor env t w =
     (if m_state t = Started then snd (DetourTransaction_Abort env t w) else (t, w))"

text \<open>
  Several \<^verbatim>\<open>DetourTransaction\<close> objects sharing the one backend: the program creates,
  commits, aborts and destroys them in any order. \<^verbatim>\<open>DetourTransaction.cpp\<close> is the only
  caller of \<^verbatim>\<open>DetourTransactionBegin\<close>, \<^verbatim>\<open>DetourTransactionCommit\<close> and
  \<^verbatim>\<open>DetourTransactionAbort\<close> in the repository. An object is named by the order of its
  creation; a destroyed object is \<open>None\<close>, and a call on an object that does not exist
  (any more) is not a run of the program and is skipped.
\<close>

datatype tx_op = Construct | CallCommit nat | CallAbort nat | Destroy nat

fun tx_step :: "os_env \<Rightarrow> tx_op \<Rightarrow> DetourTransaction option list \<times> world \<Rightarrow>
    DetourTransaction option list \<times> world" where
  "tx_step env Construct (objs, w) =
     (case DetourTransaction_ctor env w of (t, w1) \<Rightarrow> (objs @ [Some t], w1))"
| "tx_step env (CallCommit i) (objs, w) =
     (if i < length objs then
        (case objs ! i of
           None \<Rightarrow> (objs, w)
         | Some t \<Rightarrow>
             (case DetourTransaction_Commit env t w of (r, t1, w1) \<Rightarrow> (objs[i := Some t1], w1)))
      else (objs, w))"
| "tx_step env (CallAbort i) (objs, w) =
     (if i < length objs then
        (case objs ! i of
           None \<Rightarrow> (objs, w)
         | Some t \<Rightarrow>
             (case DetourTransaction_Abort env t w of (r, t1, w1) \<Rightarrow> (objs[i := Some t1], w1)))
      else (objs, w))"
| "tx_step env (Destroy i) (objs, w) =
     (if i < length objs then
        (case objs ! i of
           None \<Rightarrow> (objs, w)
         | Some t \<Rightarrow>
             (case DetourTransaction_dtor env t w of (t1, w1) \<Rightarrow> (objs[i := None], w1)))
      else (objs, w))"

fun tx_run :: "os_env \<Rightarrow> tx_op list \<Rightarrow> DetourTransaction option list \<times> world \<Rightarrow>
    DetourTransaction option list \<times> world" where
  "tx_run env [] s = s"
| "tx_run env (op # ops) s = tx_run env ops (tx_step env op s)"

definition is_started :: "DetourTransaction option \<Rightarrow> bool" where
  "is_started x = (case x of None \<Rightarrow> False | Some t \<Rightarrow> m_state t = Started)"

section \<open>MemoryProtection.cpp\<close>

record MemoryProtection =
  m_address :: addr
  m_size :: "64 word"
  m_shouldRestore :: bool

datatype exn = MemoryProtection_Exception

text \<open>The constructor throws when the protection cannot be changed.\<close>

definition MemoryProtection_ctor ::
  "os_env \<Rightarrow> addr \<Rightarrow> 64 word \<Rightarrow> world \<Rightarrow> (exn + MemoryProtection) \<times> world" where
  "MemoryProtection_ctor env aAddress aSize w =
     (case ProtectMemory env aAddress aSize w of
        (False, w1) \<Rightarrow> (Inl MemoryProtection_Exception, Log_warn ''Could not change protection'' w1)
      | (True, w1) \<Rightarrow>
          (Inr \<lparr>m_address = aAddress, m_size = aSize, m_shouldRestore = True\<rparr>, w1))"

definition MemoryProtection_dtor :: "os_env \<Rightarrow> MemoryProtection \<Rightarrow> world \<Rightarrow> world" where
  "MemoryProtection_dtor env mp w =
     (if \<not> m_shouldRestore mp then w
      else
        case ProtectMemory env (m_address mp) (m_size mp) w of
          (False, w1) \<Rightarrow> Log_warn ''Could not restore protection'' w1
        | (True, w1) \<Rightarrow> w1)"

section \<open>GameStateHook.hpp\<close>

text \<open>
  A state object starts with the pointer to its vtable; slots 3, 4 and 5 of the vtable
  are \<^verbatim>\<open>OnEnter\<close>, \<^verbatim>\<open>OnUpdate\<close> and \<^verbatim>\<open>OnExit\<close>. Both the object's first cell and the vtable
  slots are cells of \<open>ptr_slots\<close>. Calling an original handler is a call into the game:
  its boolean result is the environment's answer, the callee is appended to \<open>invoked\<close>,
  and the call is taken to change nothing else of the world.
\<close>

record FuncHook =
  shouldExecute :: bool
  detour :: addr
  orig :: addr

record GameStateHook =
  m_isAttached :: bool
  m_onEnter :: FuncHook
  m_onUpdate :: FuncHook
  m_onExit :: FuncHook

definition FuncHook_ctor :: "addr \<Rightarrow> FuncHook" where
  "FuncHook_ctor aDetour = \<lparr>shouldExecute = True, detour = aDetour, orig = 0\<rparr>"

definition GameStateHook_ctor :: "addr \<Rightarrow> addr \<Rightarrow> addr \<Rightarrow> GameStateHook" where
  "GameStateHook_ctor aOnEnter aOnUpdate aOnExit =
     \<lparr>m_isAttached = False, m_onEnter = FuncHook_ctor aOnEnter,
      m_onUpdate = FuncHook_ctor aOnUpdate, m_onExit = FuncHook_ctor aOnExit\<rparr>"

definition call_handler :: "os_env \<Rightarrow> addr \<Rightarrow> world \<Rightarrow> bool \<times> world" where
  "call_handler env f w =
     (os_handler env (os_calls w), w\<lparr>invoked := invoked w @ [f], os_calls := Suc (os_calls w)\<rparr>)"

text \<open>\<open>vtbl[i]\<close> is the cell at \<open>vtbl + 8 * i\<close>.\<close>

definition vslot :: "addr \<Rightarrow> nat \<Rightarrow> addr" where
  "vslot vtbl i = vtbl + 8 * of_nat i"

definition SwapVFuncs :: "os_env \<Rightarrow> addr \<Rightarrow> addr \<Rightarrow> addr \<Rightarrow> addr \<Rightarrow> world \<Rightarrow> bool \<times> world" where
  "SwapVFuncs env aState aOnEnter aOnUpdate aOnExit w =
     (let vtbl = ptr_slots w aState in
      case MemoryProtection_ctor env (vslot vtbl 3) 24 w of
        (Inl e, w1) \<Rightarrow>
          (False, Log_warn ''Could not change / restoring the protection for state'' w1)
      | (Inr mp, w1) \<Rightarrow>
          let w2 = w1\<lparr>ptr_slots := (ptr_slots w1)(vslot vtbl 3 := aOnEnter)\<rparr>;
              w3 = w2\<lparr>ptr_slots := (ptr_slots w2)(vslot vtbl 4 := aOnUpdate)\<rparr>;
              w4 = w3\<lparr>ptr_slots := (ptr_slots w3)(vslot vtbl 5 := aOnExit)\<rparr>
          in (True, MemoryProtection_dtor env mp w4))"

definition AttachAt :: "os_env \<Rightarrow> GameStateHook \<Rightarrow> addr \<Rightarrow> world \<Rightarrow> bool \<times> GameStateHook \<times> world" where
  "AttachAt env h aState w =
     (let vtbl = ptr_slots w aState;
          h1 = h\<lparr>m_onEnter := (m_onEnter h)\<lparr>orig := ptr_slots w (vslot vtbl 3)\<rparr>\<rparr>;
          h2 = h1\<lparr>m_onUpdate := (m_onUpdate h1)\<lparr>orig := ptr_slots w (vslot vtbl 4)\<rparr>\<rparr>;
          h3 = h2\<lparr>m_onExit := (m_onExit h2)\<lparr>orig := ptr_slots w (vslot vtbl 5)\<rparr>\<rparr>
      in case SwapVFuncs env aState (detour (m_onEnter h3)) (detour (m_onUpdate h3))
                (detour (m_onExit h3)) w of
           (True, w1) \<Rightarrow> (True, h3, w1)
         | (False, w1) \<Rightarrow> (False, h3, w1))"

definition DetachAt :: "os_env \<Rightarrow> GameStateHook \<Rightarrow> addr \<Rightarrow> world \<Rightarrow> bool \<times> GameStateHook \<times> world" where
  "DetachAt env h aState w =
     (case SwapVFuncs env aState (orig (m_onEnter h)) (orig (m_onUpdate h)) (orig (m_onExit h)) w of
        (True, w1) \<Rightarrow> (True, h, w1)
      | (False, w1) \<Rightarrow> (False, h, w1))"

definition OnEnter :: "os_env \<Rightarrow> GameStateHook \<Rightarrow> world \<Rightarrow> bool \<times> GameStateHook \<times> world" where
  "OnEnter env h w =
     (if shouldExecute (m_onEnter h) \<and> orig (m_onEnter h) \<noteq> 0 then
        case call_handler env (orig (m_onEnter h)) w of (result, w1) \<Rightarrow>
          (result, h\<lparr>m_onEnter := (m_onEnter h)\<lparr>shouldExecute := \<not> result\<rparr>\<rparr>, w1)
      else (True, h, w))"

definition OnUpdate :: "os_env \<Rightarrow> GameStateHook \<Rightarrow> world \<Rightarrow> bool \<times> GameStateHook \<times> world" where
  "OnUpdate env h w =
     (if shouldExecute (m_onUpdate h) \<and> orig (m_onUpdate h) \<noteq> 0 then
        case call_handler env (orig (m_onUpdate h)) w of (result, w1) \<Rightarrow>
          (result, h\<lparr>m_onUpdate := (m_onUpdate h)\<lparr>shouldExecute := \<not> result\<rparr>\<rparr>, w1)
      else (True, h, w))"

definition OnExit :: "os_env \<Rightarrow> GameStateHook \<Rightarrow> world \<Rightarrow> bool \<times> GameStateHook \<times> world" where
  "OnExit env h w =
     (if shouldExecute (m_onExit h) \<and> orig (m_onExit h) \<noteq> 0 then
        case call_handler env (orig (m_onExit h)) w of (result, w1) \<Rightarrow>
          (result, h\<lparr>m_onExit := (m_onExit h)\<lparr>shouldExecute := \<not> result\<rparr>\<rparr>, w1)
      else (True, h, w))"

text \<open>
  The calls a program can make on one hook object, for statements about every later
  call: the three lifecycle thunks and attaching or detaching at some state object.
\<close>

datatype gs_op = CallOnEnter | CallOnUpdate | CallOnExit | CallAttachAt addr | CallDetachAt addr

fun gs_step :: "os_env \<Rightarrow> gs_op \<Rightarrow> GameStateHook \<times> world \<Rightarrow> GameStateHook \<times> world" where
  "gs_step env CallOnEnter (h, w) = snd (OnEnter env h w)"
| "gs_step env CallOnUpdate (h, w) = snd (OnUpdate env h w)"
| "gs_step env CallOnExit (h, w) = snd (OnExit env h w)"
| "gs_step env (CallAttachAt aState) (h, w) = snd (AttachAt env h aState w)"
| "gs_step env (CallDetachAt aState) (h, w) = snd (DetachAt env h aState w)"

fun gs_run :: "os_env \<Rightarrow> gs_op list \<Rightarrow> GameStateHook \<times> world \<Rightarrow> GameStateHook \<times> world" where
  "gs_run env [] s = s"
| "gs_run env (op # ops) s = gs_run env ops (gs_step env op s)"

section \<open>Hook.hpp\<close>

text \<open>
  Modelled from the spec: the class template \<^verbatim>\<open>Hook<T>\<close> of \<^verbatim>\<open>Hook.hpp\<close> is not among
  the sources; only its uses are (\<^verbatim>\<open>Hook(aTarget, aDetour)\<close>, \<^verbatim>\<open>Attach()\<close>,
  \<^verbatim>\<open>Detach()\<close>, \<^verbatim>\<open>GetAddress()\<close>). Following the spec's function hook record, a hook
  holds the address it was made for, its detour and whether it is attached. \<open>Attach\<close>
  hands the address cell and the detour to \<^verbatim>\<open>DetourAttach\<close>, whose in-out argument leaves
  the callable original entry point in the cell; \<open>Detach\<close> is a no-op success on a hook
  that is not attached and otherwise hands the same pair to \<^verbatim>\<open>DetourDetach\<close>;
  \<open>GetAddress\<close> reads the cell.
\<close>

record Hook =
  hook_address :: addr
  hook_detour :: addr
  hook_attached :: bool

text \<open>Modelled from the spec: the constructor \<^verbatim>\<open>Hook(aAddress, aDetour)\<close>, not yet attached.\<close>

definition Hook_ctor :: "addr \<Rightarrow> addr \<Rightarrow> Hook" where
  "Hook_ctor aAddress aDetour =
     \<lparr>hook_address = aAddress, hook_detour = aDetour, hook_attached = False\<rparr>"

text \<open>
  Modelled from the spec: \<^verbatim>\<open>Hook::Attach\<close>, installing the hook through \<^verbatim>\<open>DetourAttach\<close>
  and recording whether that succeeded.
\<close>

definition Hook_Attach :: "os_env \<Rightarrow> Hook \<Rightarrow> world \<Rightarrow> int32 \<times> Hook \<times> world" where
  "Hook_Attach env h w =
     (case DetourAttach env (hook_address h) (hook_detour h) w of (result, p, w1) \<Rightarrow>
        (result, h\<lparr>hook_address := p, hook_attached := (result = NO_ERROR)\<rparr>, w1))"

text \<open>
  Modelled from the spec: \<^verbatim>\<open>Hook::Detach\<close>, a no-op success if never attached, otherwise
  removing the hook through \<^verbatim>\<open>DetourDetach\<close>; the hook stays attached if that fails.
\<close>

definition Hook_Detach :: "os_env \<Rightarrow> Hook \<Rightarrow> world \<Rightarrow> int32 \<times> Hook \<times> world" where
  "Hook_Detach env h w =
     (if \<not> hook_attached h then (NO_ERROR, h, w)
      else
        case DetourDetach env (hook_address h) (hook_detour h) w of (result, p, w1) \<Rightarrow>
          (result, h\<lparr>hook_address := p, hook_attached := (result \<noteq> NO_ERROR)\<rparr>, w1))"

text \<open>Modelled from the spec: \<^verbatim>\<open>Hook::GetAddress\<close>, the original entry point of the hook.\<close>

definition GetAddress :: "Hook \<Rightarrow> addr" where
  "GetAddress h = hook_address h"

section \<open>Systems/HookingSystem.cpp\<close>

text \<open>
  A plugin is known by the identity of its \<^verbatim>\<open>shared_ptr\<close>. The multimap \<^verbatim>\<open>m_hooks\<close> is
  the list of its entries; \<^verbatim>\<open>equal_range(aPlugin)\<close> is the entries with that key, visited
  in list order, and \<^verbatim>\<open>emplace\<close> adds at the end (the container leaves the order open).
  The mutex is not modelled: one registry call runs at a time.

  \<^verbatim>\<open>rebind_symbols\<close> is fishhook's: when it succeeds and \<^verbatim>\<open>replaced\<close> is not null, it
  stores the previous binding of the symbol there if it found one. Reading through a
  null \<^verbatim>\<open>void**\<close> is the fault \<open>NullPointerDereference\<close>.
\<close>

type_synonym plugin = nat

record Item =
  target :: addr
  symbol :: "string option"
  original :: addr
  hook :: Hook

type_synonym Map_t = "(plugin \<times> Item) list"

datatype fault = NullPointerDereference

text \<open>
  The two constructors of \<^verbatim>\<open>Item\<close>. The symbol one builds its hook from the dummy hash
  0; the address that hash resolves to is never used and is taken to be 0.
\<close>

definition Item_target :: "addr \<Rightarrow> addr \<Rightarrow> addr \<Rightarrow> Item" where
  "Item_target aTarget aDetour aOriginal =
     \<lparr>target = aTarget, symbol = None, original = aOriginal, hook = Hook_ctor aTarget aDetour\<rparr>"

definition Item_symbol :: "string \<Rightarrow> addr \<Rightarrow> addr \<Rightarrow> Item" where
  "Item_symbol aSymbol aDetour aOriginal =
     \<lparr>target = 0, symbol = Some aSymbol, original = aOriginal, hook = Hook_ctor 0 aDetour\<rparr>"

definition rebind_symbols :: "os_env \<Rightarrow> string \<Rightarrow> addr \<Rightarrow> addr \<Rightarrow> world \<Rightarrow> int32 \<times> world" where
  "rebind_symbols env name replacement replaced w =
     (case os_call env w of
        (False, w1) \<Rightarrow> (- 1, w1)
      | (True, w1) \<Rightarrow>
          (case os_symbol env (os_calls w) of
             None \<Rightarrow> (0, w1)
           | Some prev \<Rightarrow>
               (0, if replaced \<noteq> 0 then w1\<lparr>ptr_slots := (ptr_slots w1)(replaced := prev)\<rparr> else w1)))"

definition QueueForDetach ::
  "os_env \<Rightarrow> plugin \<Rightarrow> Item \<Rightarrow> world \<Rightarrow> fault + (bool \<times> Item \<times> world)" where
  "QueueForDetach env aPlugin aItem w =
     (case symbol aItem of
        Some name \<Rightarrow>
          if original aItem = 0 then Inl NullPointerDereference
          else
            (case rebind_symbols env name (ptr_slots w (original aItem)) 0 w of (rc, w1) \<Rightarrow>
               if rc \<noteq> 0 then
                 Inr (False, aItem, Log_warn ''A hook at symbol could not be detached'' w1)
               else Inr (True, aItem, w1))
      | None \<Rightarrow>
          (case Hook_Detach env (hook aItem) w of (result, h1, w1) \<Rightarrow>
             if result \<noteq> NO_ERROR then
               Inr (False, aItem\<lparr>hook := h1\<rparr>, Log_warn ''A hook could not be detached'' w1)
             else Inr (True, aItem\<lparr>hook := h1\<rparr>, w1)))"

text \<open>The loop of \<^verbatim>\<open>Shutdown\<close> over all of \<^verbatim>\<open>m_hooks\<close>, counting the hooks queued.\<close>

fun Shutdown_loop :: "os_env \<Rightarrow> Map_t \<Rightarrow> nat \<Rightarrow> world \<Rightarrow> fault + (Map_t \<times> nat \<times> world)" where
  "Shutdown_loop env [] count w = Inr ([], count, w)"
| "Shutdown_loop env ((plugin, item) # rest) count w =
     (case QueueForDetach env plugin item w of
        Inl e \<Rightarrow> Inl e
      | Inr (queued, item1, w1) \<Rightarrow>
          (case Shutdown_loop env rest (if queued then Suc count else count) w1 of
             Inl e \<Rightarrow> Inl e
           | Inr (rest1, count1, w2) \<Rightarrow> Inr ((plugin, item1) # rest1, count1, w2)))"

definition Shutdown :: "os_env \<Rightarrow> Map_t \<Rightarrow> world \<Rightarrow> fault + (Map_t \<times> world)" where
  "Shutdown env m_hooks w =
     (case DetourTransaction_ctor env w of (transaction, w1) \<Rightarrow>
        (case Shutdown_loop env m_hooks 0 w1 of
           Inl e \<Rightarrow> Inl e
         | Inr (hooks1, count, w2) \<Rightarrow>
             (case DetourTransaction_Commit env transaction w2 of (committed, transaction1, w3) \<Rightarrow>
                Inr ([], snd (DetourTransaction_dtor env transaction1 w3)))))"

text \<open>\<^verbatim>\<open>Attach\<close> by symbol name (fishhook rebinding).\<close>

definition Attach_symbol ::
  "os_env \<Rightarrow> plugin \<Rightarrow> string \<Rightarrow> addr \<Rightarrow> addr \<Rightarrow> Map_t \<Rightarrow> world \<Rightarrow> bool \<times> Map_t \<times> world" where
  "Attach_symbol env aPlugin aSymbol aDetour aOriginal m_hooks w =
     (case rebind_symbols env aSymbol aDetour aOriginal w of (rc, w1) \<Rightarrow>
        if rc \<noteq> 0 then
          (False, m_hooks, Log_warn ''The hook at symbol could not be attached'' w1)
        else (True, m_hooks @ [(aPlugin, Item_symbol aSymbol aDetour aOriginal)], w1))"

text \<open>
  \<^verbatim>\<open>Attach\<close> by address. The local transaction is destroyed on every way out of the
  function, after the result has been computed.
\<close>

definition Attach ::
  "os_env \<Rightarrow> plugin \<Rightarrow> addr \<Rightarrow> addr \<Rightarrow> addr \<Rightarrow> Map_t \<Rightarrow> world \<Rightarrow> bool \<times> Map_t \<times> world" where
  "Attach env aPlugin aTarget aDetour aOriginal m_hooks w =
     (case DetourTransaction_ctor env w of (transaction, w1) \<Rightarrow>
        let item = Item_target aTarget aDetour aOriginal in
        case Hook_Attach env (hook item) w1 of (result, h1, w2) \<Rightarrow>
          let item1 = item\<lparr>hook := h1\<rparr> in
          if result \<noteq> NO_ERROR then
            (False, m_hooks,
             snd (DetourTransaction_dtor env transaction
                    (Log_warn ''The hook could not be attached'' w2)))
          else
            (case DetourTransaction_Commit env transaction w2 of
               (True, transaction1, w3) \<Rightarrow>
                 let w4 = (if aOriginal \<noteq> 0
                           then w3\<lparr>ptr_slots := (ptr_slots w3)(aOriginal := GetAddress (hook item1))\<rparr>
                           else w3)
                 in (True, m_hooks @ [(aPlugin, item1)],
                     snd (DetourTransaction_dtor env transaction1 w4))
             | (False, transaction1, w3) \<Rightarrow>
                 (False, m_hooks,
                  snd (DetourTransaction_dtor env transaction1
                         (Log_warn ''The hook was not attached'' w3)))))"

text \<open>The test both loops of \<^verbatim>\<open>Detach\<close> apply to an item.\<close>

definition matches :: "addr \<Rightarrow> Item \<Rightarrow> world \<Rightarrow> bool" where
  "matches aTarget item w =
     (target item = aTarget \<or>
      (symbol item \<noteq> None \<and> original item \<noteq> 0 \<and> ptr_slots w (original item) = aTarget))"

text \<open>First loop of \<^verbatim>\<open>Detach\<close>: queue every matching item of the plugin.\<close>

fun Detach_queue :: "os_env \<Rightarrow> plugin \<Rightarrow> addr \<Rightarrow> Map_t \<Rightarrow> nat \<Rightarrow> bool \<Rightarrow> world \<Rightarrow>
    fault + (Map_t \<times> nat \<times> bool \<times> world)" where
  "Detach_queue env aPlugin aTarget [] count hasHook w = Inr ([], count, hasHook, w)"
| "Detach_queue env aPlugin aTarget ((p, item) # rest) count hasHook w =
     (if p = aPlugin \<and> matches aTarget item w then
        (case QueueForDetach env aPlugin item w of
           Inl e \<Rightarrow> Inl e
         | Inr (queued, item1, w1) \<Rightarrow>
             (case Detach_queue env aPlugin aTarget rest (if queued then Suc count else count) True w1 of
                Inl e \<Rightarrow> Inl e
              | Inr (rest1, count1, hasHook1, w2) \<Rightarrow> Inr ((p, item1) # rest1, count1, hasHook1, w2)))
      else
        (case Detach_queue env aPlugin aTarget rest count hasHook w of
           Inl e \<Rightarrow> Inl e
         | Inr (rest1, count1, hasHook1, w2) \<Rightarrow> Inr ((p, item) # rest1, count1, hasHook1, w2)))"

text \<open>Second loop of \<^verbatim>\<open>Detach\<close>: clear the output slot of every matching item and erase it.\<close>

fun Detach_erase :: "plugin \<Rightarrow> addr \<Rightarrow> Map_t \<Rightarrow> world \<Rightarrow> Map_t \<times> world" where
  "Detach_erase aPlugin aTarget [] w = ([], w)"
| "Detach_erase aPlugin aTarget ((p, item) # rest) w =
     (if p = aPlugin \<and> matches aTarget item w then
        Detach_erase aPlugin aTarget rest
          (if original item \<noteq> 0 then w\<lparr>ptr_slots := (ptr_slots w)(original item := 0)\<rparr> else w)
      else
        (case Detach_erase aPlugin aTarget rest w of (rest1, w1) \<Rightarrow> ((p, item) # rest1, w1)))"

definition Detach ::
  "os_env \<Rightarrow> plugin \<Rightarrow> addr \<Rightarrow> Map_t \<Rightarrow> world \<Rightarrow> fault + (bool \<times> Map_t \<times> world)" where
  "Detach env aPlugin aTarget m_hooks w =
     (case DetourTransaction_ctor env w of (transaction, w1) \<Rightarrow>
       (case Detach_queue env aPlugin aTarget m_hooks 0 False w1 of
          Inl e \<Rightarrow> Inl e
        | Inr (hooks1, count, hasHook, w2) \<Rightarrow>
            if \<not> hasHook then
              Inr (count > 0, hooks1,
                   snd (DetourTransaction_dtor env transaction
                          (Log_warn ''No hooks attached by the plugin at the target were found'' w2)))
            else if count = 0 then
              Inr (count > 0, hooks1,
                   snd (DetourTransaction_dtor env transaction
                          (Log_warn ''No hooks attached by the plugin at the target were queued for detaching'' w2)))
            else
              (case DetourTransaction_Commit env transaction w2 of
                 (True, transaction1, w3) \<Rightarrow>
                   (case Detach_erase aPlugin aTarget hooks1 w3 of (hooks2, w4) \<Rightarrow>
                      Inr (count > 0, hooks2, snd (DetourTransaction_dtor env transaction1 w4)))
               | (False, transaction1, w3) \<Rightarrow>
                   Inr (count > 0, hooks1, snd (DetourTransaction_dtor env transaction1 w3)))))"

section \<open>Auxiliary notions for the statements\<close>

text \<open>The three lifecycle slots of a \<^verbatim>\<open>GameStateHook\<close>, to speak about any one of them.\<close>

datatype slot = Enter | Update | Exit

fun slot_hook :: "slot \<Rightarrow> GameStateHook \<Rightarrow> FuncHook" where
  "slot_hook Enter h = m_onEnter h"
| "slot_hook Update h = m_onUpdate h"
| "slot_hook Exit h = m_onExit h"

fun slot_call :: "os_env \<Rightarrow> slot \<Rightarrow> GameStateHook \<Rightarrow> world \<Rightarrow> bool \<times> GameStateHook \<times> world" where
  "slot_call env Enter h w = OnEnter env h w"
| "slot_call env Update h w = OnUpdate env h w"
| "slot_call env Exit h w = OnExit env h w"

text \<open>
  The invariant of the transaction objects: the backend has a transaction open exactly
  when one object is \<open>Started\<close>, no second object is, and no object is \<open>Failed\<close>.
\<close>

definition tx_inv :: "DetourTransaction option list \<times> world \<Rightarrow> bool" where
  "tx_inv s = (case s of (objs, w) \<Rightarrow>
     length (filter is_started objs) = (if g_inTransaction w then 1 else 0) \<and>
     (\<forall>t. Some t \<in> set objs \<longrightarrow> m_state t \<noteq> Failed))"

section \<open>Concrete runs\<close>

text \<open>
  An environment in which every system call succeeds, \<^verbatim>\<open>mmap\<close> answers \<open>0x70000000\<close>
  and every original handler reports \<open>true\<close>, in the Frida Gadget build and in the
  native build; a process that has hooked nothing yet; and a game state object at
  \<open>0x100\<close> whose vtable at \<open>0x1000\<close> has the handlers \<open>0xA3\<close>, \<open>0xA4\<close>, \<open>0xA5\<close> in
  slots 3 to 5.
\<close>

definition frida_env :: os_env where
  "frida_env = \<lparr>use_frida_gadget = True, page_size = 0x4000, os_ok = (\<lambda>n. True),
     os_mmap = (\<lambda>n. 0x70000000), os_symbol = (\<lambda>n. None), os_handler = (\<lambda>n. True)\<rparr>"

definition native_env :: os_env where
  "native_env = frida_env\<lparr>use_frida_gadget := False\<rparr>"

definition fresh_world :: world where
  "fresh_world = \<lparr>g_inTransaction = False, g_hookCount = 0, g_trampolines = [],
     code = (\<lambda>a. 0), mappings = [], ptr_slots = (\<lambda>a. 0), invoked = [], logged = [],
     os_calls = 0\<rparr>"

definition game_world :: world where
  "game_world = fresh_world\<lparr>ptr_slots :=
     (\<lambda>a. if a = 0x100 then 0x1000 else if a = 0x1018 then 0xA3
          else if a = 0x1020 then 0xA4 else if a = 0x1028 then 0xA5 else 0)\<rparr>"

text \<open>
  Native build: a transaction object is created, the function at \<open>0x1000\<close> (sixteen zero
  bytes) is hooked with the detour \<open>0x2000\<close>, and then either the hook is detached again
  or the transaction object is destroyed without commit or abort.
\<close>

definition native_tx :: "DetourTransaction \<times> world" where
  "native_tx = DetourTransaction_ctor native_env fresh_world"

definition native_attached :: "int32 \<times> addr \<times> world" where
  "native_attached = DetourAttach native_env 0x1000 0x2000 (snd native_tx)"

definition native_detached :: "int32 \<times> addr \<times> world" where
  "native_detached =
     DetourDetach native_env (fst (snd native_attached)) 0x2000 (snd (snd native_attached))"

definition native_abandoned :: "DetourTransaction \<times> world" where
  "native_abandoned = DetourTransaction_dtor native_env (fst native_tx) (snd (snd native_attached))"

text \<open>
  A transaction object whose backend transaction is committed behind its back by a direct
  call of \<^verbatim>\<open>DetourTransactionCommit\<close>, so that its \<open>Abort\<close> fails; then, after a direct
  \<^verbatim>\<open>DetourTransactionBegin\<close>, \<open>Commit\<close> is called on the failed object.
\<close>

definition failed_tx :: "bool \<times> DetourTransaction \<times> world" where
  "failed_tx =
     DetourTransaction_Abort frida_env (fst (DetourTransaction_ctor frida_env fresh_world))
       (snd (DetourTransactionCommit frida_env (snd (DetourTransaction_ctor frida_env fresh_world))))"

definition failed_tx_committed :: "bool \<times> DetourTransaction \<times> world" where
  "failed_tx_committed =
     DetourTransaction_Commit frida_env (fst (snd failed_tx))
       (snd (DetourTransactionBegin frida_env (snd (snd failed_tx))))"

text \<open>
  A hook on the game state object: attached; then its \<open>OnEnter\<close> run once (the handler
  reports \<open>true\<close>); then detached and attached again.
\<close>

definition attached_hook :: "GameStateHook \<times> world" where
  "attached_hook = gs_run frida_env [CallAttachAt 0x100] (GameStateHook_ctor 0xD3 0xD4 0xD5, game_world)"

definition entered :: "bool \<times> GameStateHook \<times> world" where
  "entered = OnEnter frida_env (fst attached_hook) (snd attached_hook)"

definition reattached :: "GameStateHook \<times> world" where
  "reattached = gs_run frida_env [CallDetachAt 0x100, CallAttachAt 0x100] (snd entered)"

text \<open>An environment that differs only in that the original handlers report \<open>false\<close>.\<close>

definition refusing_env :: os_env where
  "refusing_env = frida_env\<lparr>os_handler := (\<lambda>n. False)\<rparr>"

text \<open>Two transaction objects created one after the other.\<close>

definition two_transactions :: "DetourTransaction option list \<times> world" where
  "two_transactions = tx_run frida_env [Construct, Construct] ([], fresh_world)"

text \<open>
  Registry calls in the Frida Gadget build, from an empty registry: plugin 1 hooks the
  function at \<open>0x1000\<close> with the detour \<open>0x2000\<close> and the output slot \<open>0x500\<close>; the
  same call in the native build; the same call with a null target; the same call while
  the backend already has a transaction open; plugin 1 hooks \<open>0x1000\<close> a second time
  with the detour \<open>0x3000\<close> and the output slot \<open>0x508\<close>; plugin 1 detaches at
  \<open>0x1000\<close> with both hooks in place (and the first loop of that call on its own);
  plugin 1, owning the one hook at \<open>0x1000\<close>, detaches at \<open>0x3000\<close>; and plugin 1 hooks
  the symbol \<open>open\<close> with a null output slot.
\<close>

definition frida_attach :: "bool \<times> Map_t \<times> world" where
  "frida_attach = Attach frida_env 1 0x1000 0x2000 0x500 [] fresh_world"

definition native_attach :: "bool \<times> Map_t \<times> world" where
  "native_attach = Attach native_env 1 0x1000 0x2000 0x500 [] fresh_world"

definition null_attach :: "bool \<times> Map_t \<times> world" where
  "null_attach = Attach frida_env 1 0 0x2000 0x500 [] fresh_world"





definition open_world :: world where
  "open_world = fresh_world\<lparr>g_inTransaction := True\<rparr>"

definition nested_attach :: "bool \<times> Map_t \<times> world" where
  "nested_attach = Attach frida_env 1 0x1000 0x2000 0x500 [] open_world"

definition symbol_attached :: "bool \<times> Map_t \<times> world" where
  "symbol_attached = Attach_symbol frida_env 1 ''open'' 0x2000 0 [] fresh_world"

section \<open>Facts about the backend and the byte memory\<close>

lemmas fixture_defs = frida_env_def native_env_def fresh_world_def game_world_def

lemmas hooking_defs = DetourTransactionBegin_def DetourTransactionCommit_def DetourTransactionAbort_def
  DetourAttach_def DetourAttach_native_def DetourAttach_frida_def DetourDetach_def
  DetourDetach_native_def DetourDetach_frida_def mmap_def munmap_def os_call_def ProtectMemory_def
  Log_error_def Log_warn_def Trampoline_dtor_def clear_trampolines_def AlignToPage_def

lemmas tx_defs = DetourTransaction_ctor_def DetourTransaction_dtor_def DetourTransaction_Commit_def
  DetourTransaction_Abort_def SetState_def

lemmas gs_defs = OnEnter_def OnUpdate_def OnExit_def AttachAt_def DetachAt_def call_handler_def
  SwapVFuncs_def MemoryProtection_ctor_def MemoryProtection_dtor_def ProtectMemory_def os_call_def
  GameStateHook_ctor_def FuncHook_ctor_def vslot_def Log_warn_def Log_error_def

lemma ProtectMemory_frame:
  "code (snd (ProtectMemory env a s w)) = code w"
  "g_trampolines (snd (ProtectMemory env a s w)) = g_trampolines w"
  "g_inTransaction (snd (ProtectMemory env a s w)) = g_inTransaction w"
  "g_hookCount (snd (ProtectMemory env a s w)) = g_hookCount w"
  "ptr_slots (snd (ProtectMemory env a s w)) = ptr_slots w"
  "mappings (snd (ProtectMemory env a s w)) = mappings w"
  "invoked (snd (ProtectMemory env a s w)) = invoked w"
  by (simp_all add: ProtectMemory_def os_call_def Log_error_def split: bool.splits)

lemma fold_Trampoline_dtor_frame:
  "code (fold Trampoline_dtor ts w) = code w"
  "ptr_slots (fold Trampoline_dtor ts w) = ptr_slots w"
  "g_inTransaction (fold Trampoline_dtor ts w) = g_inTransaction w"
  "g_hookCount (fold Trampoline_dtor ts w) = g_hookCount w"
  "logged (fold Trampoline_dtor ts w) = logged w"
  "invoked (fold Trampoline_dtor ts w) = invoked w"
  by (induction ts arbitrary: w; simp add: Trampoline_dtor_def munmap_def)+

text \<open>Neither \<^verbatim>\<open>DetourDetach\<close> nor \<^verbatim>\<open>DetourTransactionAbort\<close> writes a byte of code.\<close>

lemma DetourDetach_code: "code (snd (snd (DetourDetach env p d w))) = code w"
  by (simp add: DetourDetach_def DetourDetach_frida_def DetourDetach_native_def Let_def
        Trampoline_dtor_def munmap_def ProtectMemory_frame split_beta
      split: option.splits bool.splits)

lemma DetourTransactionAbort_code: "code (snd (DetourTransactionAbort env w)) = code w"
  by (simp add: DetourTransactionAbort_def clear_trampolines_def fold_Trampoline_dtor_frame)

text \<open>In the Frida Gadget build \<^verbatim>\<open>DetourAttach\<close> writes no byte of code either.\<close>

lemma DetourAttach_frida_code: "code (snd (snd (DetourAttach_frida p d w))) = code w"
  by (simp add: DetourAttach_frida_def Log_error_def Let_def)

lemma write_bytes_other:
  "(\<forall>k < length bs. a + of_nat k \<noteq> x) \<Longrightarrow> write_bytes m a bs x = m x"
proof (induction bs arbitrary: m a)
  case Nil
  then show ?case by simp
next
  case (Cons b bs)
  have "\<forall>k < length bs. (a + 1) + of_nat k \<noteq> x"
  proof (intro allI impI)
    fix k assume "k < length bs"
    then have "Suc k < length (b # bs)" by simp
    with Cons.prems have "a + of_nat (Suc k) \<noteq> x" by blast
    then show "(a + 1) + of_nat k \<noteq> x" by (simp add: add.assoc)
  qed
  then have "write_bytes (m(a := b)) (a + 1) bs x = (m(a := b)) x" by (rule Cons.IH)
  moreover from Cons.prems have "a + of_nat 0 \<noteq> x" by (metis length_greater_0_conv list.distinct(1))
  ultimately show ?case by simp
qed

lemma read_write_bytes:
  "length bs \<le> 2 ^ 64 \<Longrightarrow> read_bytes (write_bytes m a bs) (a :: addr) (length bs) = bs"
proof (induction bs arbitrary: m a)
  case Nil
  then show ?case by simp
next
  case (Cons b bs)
  have "\<forall>k < length bs. (a + 1) + of_nat k \<noteq> a"
  proof (intro allI impI)
    fix k assume k: "k < length bs"
    with Cons.prems have "Suc k < 2 ^ LENGTH(64)" by simp
    then have "(of_nat (Suc k) :: addr) \<noteq> 0" by (intro of_nat_neq_0) simp_all
    then show "(a + 1) + of_nat k \<noteq> a" by (simp add: add.assoc)
  qed
  then have "write_bytes (m(a := b)) (a + 1) bs a = (m(a := b)) a" by (rule write_bytes_other)
  moreover from Cons.prems
  have "read_bytes (write_bytes (m(a := b)) (a + 1) bs) (a + 1) (length bs) = bs"
    by (intro Cons.IH) simp
  ultimately show ?case by simp
qed

lemma length_jump_sequence: "length (jump_sequence d) = 16"
  by (simp add: jump_sequence_def le_bytes32_def le_bytes64_def)

lemma read_jump_sequence: "read_bytes (write_bytes m a (jump_sequence d)) a 16 = jump_sequence d"
  using read_write_bytes [of "jump_sequence d" m a] by (simp add: length_jump_sequence)

lemma read_zero: "read_bytes (\<lambda>a. 0) a n = replicate n 0"
  by (induction n arbitrary: a) simp_all

lemma jump_to_0x2000:
  "jump_sequence 0x2000 = [0x50, 0, 0, 0x58, 0, 2, 0x1F, 0xD6, 0, 0x20, 0, 0, 0, 0, 0, 0]"
  by (simp add: jump_sequence_def le_bytes32_def le_bytes64_def EncodeLdrX16Imm_def EncodeBrX16_def)

text \<open>
  A successful native \<^verbatim>\<open>DetourAttach\<close> leaves the jump to the detour at the target, and
  no later \<^verbatim>\<open>DetourDetach\<close> or abort changes that.
\<close>

lemma DetourAttach_native_patches:
  assumes "DetourAttach_native env pTarget pDetour w = (NO_ERROR, p, w1)"
  shows "read_bytes (code w1) pTarget 16 = jump_sequence pDetour"
  using assms
  by (auto simp: DetourAttach_native_def Let_def mmap_def os_call_def munmap_def Log_error_def
        ProtectMemory_frame read_jump_sequence split_beta
      simp del: write_bytes.simps read_bytes.simps
      split: if_splits bool.splits)

lemma Abort_code: "code (snd (snd (DetourTransaction_Abort env t w))) = code w"
  by (cases "m_state t")
     (simp_all add: DetourTransaction_Abort_def Log_warn_def Log_error_def split_beta
        DetourTransactionAbort_code)

lemma dtor_code: "code (snd (DetourTransaction_dtor env t w)) = code w"
  by (simp add: DetourTransaction_dtor_def Abort_code)

lemma native_jump_survives:
  assumes "DetourAttach_native env pTarget pDetour w = (NO_ERROR, p, w1)"
  shows "read_bytes (code (snd (snd (DetourDetach env p1 d1 w1)))) pTarget 16 = jump_sequence pDetour"
    and "read_bytes (code (snd (DetourTransaction_dtor env t w1))) pTarget 16 = jump_sequence pDetour"
  using DetourAttach_native_patches [OF assms] by (simp_all add: DetourDetach_code dtor_code)

text \<open>In the Frida Gadget build attach followed by detach leaves every byte of code as it was.\<close>

lemma frida_attach_detach_code:
  "code (snd (snd (DetourDetach_frida p1 d1 (snd (snd (DetourAttach_frida p d w)))))) = code w"
  by (simp add: DetourDetach_frida_def DetourAttach_frida_code)

subsection \<open>The concrete native run, step by step\<close>

lemma native_tx_eq: "native_tx = (\<lparr>m_state = Started\<rparr>, fresh_world\<lparr>g_inTransaction := True\<rparr>)"
  by (simp add: native_tx_def fixture_defs tx_defs hooking_defs)

lemma native_attached_eq:
  "native_attached = (NO_ERROR, 0x70000000,
     fresh_world\<lparr>g_inTransaction := True,
       g_trampolines := [\<lparr>t_target = 0x1000, t_detour = 0x2000, t_original = 0x1000,
                          trampolineMem = 0x70000000, trampolineSize = 0x4000\<rparr>],
       code := write_bytes (write_bytes (\<lambda>a. 0) 0x70000000 (jump_sequence 0x1000)) 0x1000
                 (jump_sequence 0x2000),
       mappings := [0x70000000], os_calls := 4\<rparr>)"
  by (simp add: native_attached_def native_tx_eq fixture_defs hooking_defs Let_def
      del: write_bytes.simps read_bytes.simps)

lemma native_detached_eq:
  "native_detached = (NO_ERROR, 0x1000,
     fresh_world\<lparr>g_inTransaction := True,
       code := write_bytes (write_bytes (\<lambda>a. 0) 0x70000000 (jump_sequence 0x1000)) 0x1000
                 (jump_sequence 0x2000),
       os_calls := 6\<rparr>)"
  by (simp add: native_detached_def native_attached_eq fixture_defs hooking_defs Let_def
      del: write_bytes.simps read_bytes.simps)

lemma native_abandoned_eq:
  "native_abandoned = (\<lparr>m_state = Aborted\<rparr>,
     fresh_world\<lparr>
       code := write_bytes (write_bytes (\<lambda>a. 0) 0x70000000 (jump_sequence 0x1000)) 0x1000
                 (jump_sequence 0x2000),
       os_calls := 4\<rparr>)"
  by (simp add: native_abandoned_def native_tx_eq native_attached_eq fixture_defs tx_defs hooking_defs
      del: write_bytes.simps read_bytes.simps)

lemma zero_bytes_before: "read_bytes (code (snd native_tx)) 0x1000 16 = replicate 16 0"
  by (simp add: native_tx_eq fresh_world_def read_zero del: read_bytes.simps)

lemma jump_is_not_zero_bytes: "jump_sequence 0x2000 \<noteq> replicate 16 0"
  by (simp add: jump_to_0x2000 eval_nat_numeral)

section \<open>Facts about transaction objects\<close>

lemma filter_update_count:
  "i < length xs \<Longrightarrow>
   length (filter P (xs[i := x])) + (if P (xs ! i) then 1 else 0) =
   length (filter P xs) + (if P x then 1 else 0)"
proof (induction xs arbitrary: i)
  case Nil
  then show ?case by simp
next
  case (Cons a xs)
  show ?case
  proof (cases i)
    case 0
    then show ?thesis by simp
  next
    case (Suc k)
    with Cons.prems have "k < length xs" by simp
    from Cons.IH [OF this] Suc show ?thesis by simp
  qed
qed

lemma set_update_Some:
  "Some t \<in> set (xs[i := y]) \<Longrightarrow> Some t = y \<or> Some t \<in> set xs"
  using set_update_subset_insert [of xs i y] by auto

lemma ctor_cases:
  "DetourTransaction_ctor env w =
     (if g_inTransaction w
      then (\<lparr>m_state = Invalid\<rparr>, Log_error ''Could not start the detour transaction'' w)
      else (\<lparr>m_state = Started\<rparr>, w\<lparr>g_inTransaction := True\<rparr>))"
  by (simp add: DetourTransaction_ctor_def DetourTransactionBegin_def SetState_def Let_def)

lemma Commit_started:
  "m_state t = Started \<Longrightarrow> g_inTransaction w \<Longrightarrow>
   DetourTransaction_Commit env t w = (True, t\<lparr>m_state := Committed\<rparr>, w\<lparr>g_inTransaction := False\<rparr>)"
  by (simp add: DetourTransaction_Commit_def DetourTransactionCommit_def SetState_def)

lemma Commit_rejected:
  "m_state t \<noteq> Started \<Longrightarrow> m_state t \<noteq> Failed \<Longrightarrow>
   fst (snd (DetourTransaction_Commit env t w)) = t \<and>
   g_inTransaction (snd (snd (DetourTransaction_Commit env t w))) = g_inTransaction w"
  by (cases "m_state t") (simp_all add: DetourTransaction_Commit_def Log_warn_def)

lemma Abort_started:
  "m_state t = Started \<Longrightarrow> g_inTransaction w \<Longrightarrow>
   fst (DetourTransaction_Abort env t w) = True \<and>
   fst (snd (DetourTransaction_Abort env t w)) = t\<lparr>m_state := Aborted\<rparr> \<and>
   g_inTransaction (snd (snd (DetourTransaction_Abort env t w))) = False"
  by (simp add: DetourTransaction_Abort_def DetourTransactionAbort_def SetState_def)

lemma Abort_rejected:
  "m_state t \<noteq> Started \<Longrightarrow> m_state t \<noteq> Failed \<Longrightarrow>
   fst (snd (DetourTransaction_Abort env t w)) = t \<and>
   g_inTransaction (snd (snd (DetourTransaction_Abort env t w))) = g_inTransaction w"
  by (cases "m_state t") (simp_all add: DetourTransaction_Abort_def Log_warn_def)

lemma started_in_transaction:
  assumes "tx_inv (objs, w)" "i < length objs" "objs ! i = Some t" "m_state t = Started"
  shows "g_inTransaction w"
proof (rule ccontr)
  assume "\<not> g_inTransaction w"
  with assms(1) have "filter is_started objs = []" by (simp add: tx_inv_def)
  moreover from assms(2) have "objs ! i \<in> set objs" by (rule nth_mem)
  moreover from assms(3,4) have "is_started (objs ! i)" by (simp add: is_started_def)
  ultimately show False by (metis filter_empty_conv)
qed

lemma not_failed:
  assumes "tx_inv (objs, w)" "i < length objs" "objs ! i = Some t"
  shows "m_state t \<noteq> Failed"
proof -
  from assms(2) have "objs ! i \<in> set objs" by (rule nth_mem)
  with assms(3) have "Some t \<in> set objs" by simp
  with assms(1) show ?thesis by (simp add: tx_inv_def)
qed

text \<open>
  Replacing object \<open>i\<close> keeps the invariant when either it was the started one and the
  backend transaction is closed with it, or it was not started and the backend flag stays.
\<close>

lemma tx_inv_update:
  assumes inv: "tx_inv (objs, w)" and i: "i < length objs" and t: "objs ! i = Some t"
    and cases: "(m_state t = Started \<and> \<not> is_started y \<and> \<not> g_inTransaction w1) \<or>
           (m_state t \<noteq> Started \<and> \<not> is_started y \<and> g_inTransaction w1 = g_inTransaction w)"
    and y: "\<forall>t1. y = Some t1 \<longrightarrow> m_state t1 \<noteq> Failed"
  shows "tx_inv (objs[i := y], w1)"
proof -
  have cnt: "length (filter is_started (objs[i := y])) + (if is_started (objs ! i) then 1 else 0) =
        length (filter is_started objs) + (if is_started y then 1 else 0)"
    using i by (rule filter_update_count)
  have nf: "\<forall>t1. Some t1 \<in> set (objs[i := y]) \<longrightarrow> m_state t1 \<noteq> Failed"
  proof (intro allI impI)
    fix t1 assume "Some t1 \<in> set (objs[i := y])"
    then have "Some t1 = y \<or> Some t1 \<in> set objs" by (rule set_update_Some)
    then show "m_state t1 \<noteq> Failed" using inv y by (auto simp: tx_inv_def)
  qed
  from cases show ?thesis
  proof
    assume c: "m_state t = Started \<and> \<not> is_started y \<and> \<not> g_inTransaction w1"
    then have "g_inTransaction w" using inv i t by (auto intro: started_in_transaction)
    with c cnt t inv nf show ?thesis by (simp add: tx_inv_def is_started_def)
  next
    assume c: "m_state t \<noteq> Started \<and> \<not> is_started y \<and> g_inTransaction w1 = g_inTransaction w"
    with cnt t inv nf show ?thesis by (simp add: tx_inv_def is_started_def)
  qed
qed

lemma tx_step_inv: "tx_inv (objs, w) \<Longrightarrow> tx_inv (tx_step env op (objs, w))"
proof (cases op)
  case Construct
  assume "tx_inv (objs, w)"
  then show ?thesis using Construct
    by (auto simp: tx_inv_def ctor_cases is_started_def Log_error_def)
next
  case (CallCommit i)
  assume inv: "tx_inv (objs, w)"
  show ?thesis
  proof (cases "i < length objs")
    case False
    with inv CallCommit show ?thesis by simp
  next
    case True
    show ?thesis
    proof (cases "objs ! i")
      case None
      with inv CallCommit True show ?thesis by simp
    next
      case (Some t)
      obtain r t1 w1 where c: "DetourTransaction_Commit env t w = (r, t1, w1)"
        by (cases "DetourTransaction_Commit env t w") auto
      have nf: "m_state t \<noteq> Failed" using inv True Some by (rule not_failed)
      have "tx_inv (objs[i := Some t1], w1)"
      proof (rule tx_inv_update [OF inv True Some])
        show "(m_state t = Started \<and> \<not> is_started (Some t1) \<and> \<not> g_inTransaction w1) \<or>
           (m_state t \<noteq> Started \<and> \<not> is_started (Some t1) \<and> g_inTransaction w1 = g_inTransaction w)"
        proof (cases "m_state t = Started")
          case True
          then have "g_inTransaction w" using inv \<open>i < length objs\<close> Some
            by (auto intro: started_in_transaction)
          with True c show ?thesis by (auto simp: Commit_started is_started_def)
        next
          case False
          with nf c Commit_rejected [of t env w] show ?thesis by (auto simp: is_started_def)
        qed
        show "\<forall>t2. Some t1 = Some t2 \<longrightarrow> m_state t2 \<noteq> Failed"
        proof (cases "m_state t = Started")
          case True
          then have "g_inTransaction w" using inv \<open>i < length objs\<close> Some
            by (auto intro: started_in_transaction)
          with True c show ?thesis by (auto simp: Commit_started)
        next
          case False
          with nf c Commit_rejected [of t env w] show ?thesis by auto
        qed
      qed
      with CallCommit True Some c show ?thesis by simp
    qed
  qed
next
  case (CallAbort i)
  assume inv: "tx_inv (objs, w)"
  show ?thesis
  proof (cases "i < length objs")
    case False
    with inv CallAbort show ?thesis by simp
  next
    case True
    show ?thesis
    proof (cases "objs ! i")
      case None
      with inv CallAbort True show ?thesis by simp
    next
      case (Some t)
      obtain r t1 w1 where c: "DetourTransaction_Abort env t w = (r, t1, w1)"
        by (cases "DetourTransaction_Abort env t w") auto
      have nf: "m_state t \<noteq> Failed" using inv True Some by (rule not_failed)
      have "tx_inv (objs[i := Some t1], w1)"
      proof (rule tx_inv_update [OF inv True Some])
        show "(m_state t = Started \<and> \<not> is_started (Some t1) \<and> \<not> g_inTransaction w1) \<or>
           (m_state t \<noteq> Started \<and> \<not> is_started (Some t1) \<and> g_inTransaction w1 = g_inTransaction w)"
        proof (cases "m_state t = Started")
          case True
          then have "g_inTransaction w" using inv \<open>i < length objs\<close> Some
            by (auto intro: started_in_transaction)
          with True c Abort_started [of t w env] show ?thesis by (auto simp: is_started_def)
        next
          case False
          with nf c Abort_rejected [of t env w] show ?thesis by (auto simp: is_started_def)
        qed
        show "\<forall>t2. Some t1 = Some t2 \<longrightarrow> m_state t2 \<noteq> Failed"
        proof (cases "m_state t = Started")
          case True
          then have "g_inTransaction w" using inv \<open>i < length objs\<close> Some
            by (auto intro: started_in_transaction)
          with True c Abort_started [of t w env] show ?thesis by auto
        next
          case False
          with nf c Abort_rejected [of t env w] show ?thesis by auto
        qed
      qed
      with CallAbort True Some c show ?thesis by simp
    qed
  qed
next
  case (Destroy i)
  assume inv: "tx_inv (objs, w)"
  show ?thesis
  proof (cases "i < length objs")
    case False
    with inv Destroy show ?thesis by simp
  next
    case True
    show ?thesis
    proof (cases "objs ! i")
      case None
      with inv Destroy True show ?thesis by simp
    next
      case (Some t)
      obtain t1 w1 where c: "DetourTransaction_dtor env t w = (t1, w1)"
        by (cases "DetourTransaction_dtor env t w") auto
      have "tx_inv (objs[i := None], w1)"
      proof (rule tx_inv_update [OF inv True Some])
        show "(m_state t = Started \<and> \<not> is_started None \<and> \<not> g_inTransaction w1) \<or>
           (m_state t \<noteq> Started \<and> \<not> is_started None \<and> g_inTransaction w1 = g_inTransaction w)"
        proof (cases "m_state t = Started")
          case True
          then have "g_inTransaction w" using inv \<open>i < length objs\<close> Some
            by (auto intro: started_in_transaction)
          with True c Abort_started [of t w env] show ?thesis
            by (auto simp: is_started_def DetourTransaction_dtor_def)
        next
          case False
          with c show ?thesis by (auto simp: is_started_def DetourTransaction_dtor_def)
        qed
        show "\<forall>t2. None = Some t2 \<longrightarrow> m_state t2 \<noteq> Failed" by simp
      qed
      with Destroy True Some c show ?thesis by simp
    qed
  qed
qed

lemma tx_run_inv: "tx_inv s \<Longrightarrow> tx_inv (tx_run env ops s)"
proof (induction ops arbitrary: s)
  case Nil
  then show ?case by simp
next
  case (Cons op ops)
  obtain objs w where s: "s = (objs, w)" by (cases s)
  with Cons.prems have "tx_inv (tx_step env op s)" by (simp add: tx_step_inv)
  then show ?case by (simp add: Cons.IH)
qed

section \<open>Facts about the vtable hook\<close>

lemma slot_call_skip:
  "\<not> (shouldExecute (slot_hook sl h) \<and> orig (slot_hook sl h) \<noteq> 0) \<Longrightarrow>
   slot_call env sl h w = (True, h, w)"
  by (cases sl) (auto simp: OnEnter_def OnUpdate_def OnExit_def)

lemma slot_call_false:
  "fst (slot_call env sl h w) = False \<Longrightarrow>
     shouldExecute (slot_hook sl h) \<and> orig (slot_hook sl h) \<noteq> 0 \<and>
     os_handler env (os_calls w) = False \<and>
     invoked (snd (snd (slot_call env sl h w))) = invoked w @ [orig (slot_hook sl h)]"
  by (cases sl) (auto simp: OnEnter_def OnUpdate_def OnExit_def call_handler_def split: if_splits)

lemma slot_call_true_suppresses:
  "shouldExecute (slot_hook sl h) \<and> orig (slot_hook sl h) \<noteq> 0 \<Longrightarrow>
   slot_call env sl h w = (True, h1, w1) \<Longrightarrow> \<not> shouldExecute (slot_hook sl h1)"
  by (cases sl) (auto simp: OnEnter_def OnUpdate_def OnExit_def call_handler_def split: if_splits)

text \<open>No call on the hook object sets a cleared \<open>shouldExecute\<close> flag again.\<close>

lemma gs_step_keeps_suppressed:
  "\<not> shouldExecute (slot_hook sl h) \<Longrightarrow> gs_step env op (h, w) = (h1, w1) \<Longrightarrow>
   \<not> shouldExecute (slot_hook sl h1)"
  by (cases op; cases sl)
     (auto simp: OnEnter_def OnUpdate_def OnExit_def AttachAt_def DetachAt_def call_handler_def Let_def
           split: if_splits prod.splits bool.splits)

lemma gs_run_keeps_suppressed:
  "\<not> shouldExecute (slot_hook sl h) \<Longrightarrow> gs_run env ops (h, w) = (h1, w1) \<Longrightarrow>
   \<not> shouldExecute (slot_hook sl h1)"
proof (induction ops arbitrary: h w)
  case Nil
  then show ?case by simp
next
  case (Cons op ops)
  obtain h' w' where st: "gs_step env op (h, w) = (h', w')" by (cases "gs_step env op (h, w)")
  from Cons.prems(1) st have "\<not> shouldExecute (slot_hook sl h')" by (rule gs_step_keeps_suppressed)
  moreover from Cons.prems(2) st have "gs_run env ops (h', w') = (h1, w1)" by simp
  ultimately show ?case by (rule Cons.IH)
qed

lemma attached_hook_eq:
  "attached_hook =
     (\<lparr>m_isAttached = False,
       m_onEnter = \<lparr>shouldExecute = True, detour = 0xD3, orig = 0xA3\<rparr>,
       m_onUpdate = \<lparr>shouldExecute = True, detour = 0xD4, orig = 0xA4\<rparr>,
       m_onExit = \<lparr>shouldExecute = True, detour = 0xD5, orig = 0xA5\<rparr>\<rparr>,
      game_world\<lparr>ptr_slots := (ptr_slots game_world)(0x1018 := 0xD3, 0x1020 := 0xD4, 0x1028 := 0xD5),
        os_calls := 2\<rparr>)"
  by (simp add: attached_hook_def fixture_defs gs_defs Let_def fun_eq_iff)

lemma entered_eq:
  "entered =
     (True,
      \<lparr>m_isAttached = False,
       m_onEnter = \<lparr>shouldExecute = False, detour = 0xD3, orig = 0xA3\<rparr>,
       m_onUpdate = \<lparr>shouldExecute = True, detour = 0xD4, orig = 0xA4\<rparr>,
       m_onExit = \<lparr>shouldExecute = True, detour = 0xD5, orig = 0xA5\<rparr>\<rparr>,
      game_world\<lparr>ptr_slots := (ptr_slots game_world)(0x1018 := 0xD3, 0x1020 := 0xD4, 0x1028 := 0xD5),
        invoked := [0xA3], os_calls := 3\<rparr>)"
  by (simp add: entered_def attached_hook_eq fixture_defs OnEnter_def call_handler_def)

lemma reattached_eq:
  "reattached =
     (\<lparr>m_isAttached = False,
       m_onEnter = \<lparr>shouldExecute = False, detour = 0xD3, orig = 0xA3\<rparr>,
       m_onUpdate = \<lparr>shouldExecute = True, detour = 0xD4, orig = 0xA4\<rparr>,
       m_onExit = \<lparr>shouldExecute = True, detour = 0xD5, orig = 0xA5\<rparr>\<rparr>,
      game_world\<lparr>ptr_slots := (ptr_slots game_world)(0x1018 := 0xD3, 0x1020 := 0xD4, 0x1028 := 0xD5),
        invoked := [0xA3], os_calls := 7\<rparr>)"
  by (simp add: reattached_def entered_eq fixture_defs gs_defs Let_def fun_eq_iff)

lemma two_transactions_eq:
  "two_transactions =
     ([Some \<lparr>m_state = Started\<rparr>, Some \<lparr>m_state = Invalid\<rparr>],
      fresh_world\<lparr>g_inTransaction := True,
        logged := [(LogError, ''Could not start the detour transaction'')]\<rparr>)"
  by (simp add: two_transactions_def ctor_cases fresh_world_def Log_error_def)

lemma failed_tx_eq:
  "failed_tx =
     (False, \<lparr>m_state = Failed\<rparr>,
      fresh_world\<lparr>logged := [(LogError, ''Could not abort the transaction'')]\<rparr>)"
  by (simp add: failed_tx_def fixture_defs tx_defs hooking_defs)

section \<open>Facts about the registry\<close>

lemmas registry_defs = Attach_def Attach_symbol_def Detach_def Shutdown_def QueueForDetach_def
  rebind_symbols_def Hook_Attach_def Hook_Detach_def Hook_ctor_def GetAddress_def Item_target_def
  Item_symbol_def matches_def

text \<open>Only the registry itself writes pointer cells: the backend and the transactions do not.\<close>

lemma DetourAttach_slots: "ptr_slots (snd (snd (DetourAttach env p d w))) = ptr_slots w"
  by (simp add: DetourAttach_def DetourAttach_frida_def DetourAttach_native_def Let_def mmap_def
        os_call_def munmap_def Log_error_def ProtectMemory_frame split_beta
      del: write_bytes.simps
      split: bool.splits)

lemma Hook_Attach_slots: "ptr_slots (snd (snd (Hook_Attach env h w))) = ptr_slots w"
  by (simp add: Hook_Attach_def split_beta DetourAttach_slots)

lemma ctor_slots: "ptr_slots (snd (DetourTransaction_ctor env w)) = ptr_slots w"
  by (simp add: ctor_cases Log_error_def)

lemma ctor_os_calls: "os_calls (snd (DetourTransaction_ctor env w)) = os_calls w"
  by (simp add: ctor_cases Log_error_def)

lemma Commit_slots: "ptr_slots (snd (snd (DetourTransaction_Commit env t w))) = ptr_slots w"
  by (cases "m_state t")
     (simp_all add: DetourTransaction_Commit_def DetourTransactionCommit_def Log_warn_def Log_error_def)

lemma Abort_slots: "ptr_slots (snd (snd (DetourTransaction_Abort env t w))) = ptr_slots w"
  by (cases "m_state t")
     (simp_all add: DetourTransaction_Abort_def DetourTransactionAbort_def Log_warn_def Log_error_def
        clear_trampolines_def fold_Trampoline_dtor_frame)

lemma dtor_slots: "ptr_slots (snd (DetourTransaction_dtor env t w)) = ptr_slots w"
  by (simp add: DetourTransaction_dtor_def Abort_slots)

lemma Log_warn_slots: "ptr_slots (Log_warn msg w) = ptr_slots w"
  by (simp add: Log_warn_def)

lemmas slots_frame = Hook_Attach_slots ctor_slots Commit_slots Abort_slots dtor_slots Log_warn_slots

lemma Hook_Attach_detour: "hook_detour (fst (snd (Hook_Attach env h w))) = hook_detour h"
  by (simp add: Hook_Attach_def split_beta)

text \<open>What a successful \<^verbatim>\<open>DetourAttach\<close> leaves in its in-out pointer, per build.\<close>

lemma DetourAttach_frida_result:
  "DetourAttach_frida p d w = (NO_ERROR, p', w') \<Longrightarrow> p' = p \<and> p \<noteq> 0 \<and> d \<noteq> 0"
  by (auto simp: DetourAttach_frida_def Let_def split: if_splits)

lemma DetourAttach_native_result:
  "DetourAttach_native env p d w = (NO_ERROR, p', w') \<Longrightarrow>
     p' = os_mmap env (os_calls w) \<and> p' \<noteq> MAP_FAILED \<and> p \<noteq> 0 \<and> d \<noteq> 0"
  by (auto simp: DetourAttach_native_def Let_def mmap_def split_beta
      simp del: write_bytes.simps
      split: if_splits bool.splits)

lemma Attach_reported:
  assumes "Attach env aPlugin aTarget aDetour aOriginal m_hooks w = (True, m_hooks', w')"
    and "aOriginal \<noteq> 0"
  shows "\<exists>w1. DetourAttach env aTarget aDetour (snd (DetourTransaction_ctor env w)) =
            (NO_ERROR, ptr_slots w' aOriginal, w1)"
proof -
  obtain rc p w1 where
    a: "DetourAttach env aTarget aDetour (snd (DetourTransaction_ctor env w)) = (rc, p, w1)"
    by (cases "DetourAttach env aTarget aDetour (snd (DetourTransaction_ctor env w))")
  have "rc = NO_ERROR \<and> ptr_slots w' aOriginal = p"
    using assms a
    by (auto simp: Attach_def Let_def split_beta slots_frame Item_target_def Hook_ctor_def
          Hook_Attach_def GetAddress_def
        split: if_splits bool.splits)
  with a show ?thesis by auto
qed





text \<open>The boolean \<^verbatim>\<open>Detach\<close> returns says whether its first loop queued at least one hook.\<close>

lemma Detach_returns_queued:
  "Detach env aPlugin aTarget m_hooks w = Inr (r, hooks', w') \<Longrightarrow>
   \<exists>hooks1 count hasHook w2.
     Detach_queue env aPlugin aTarget m_hooks 0 False (snd (DetourTransaction_ctor env w)) =
       Inr (hooks1, count, hasHook, w2) \<and> r = (count > 0)"
  by (auto simp: Detach_def split_beta split: sum.splits if_splits bool.splits)

text \<open>
  \<^verbatim>\<open>Shutdown\<close> empties the registry whenever no record made by symbol name has a null
  output slot: then no \<^verbatim>\<open>QueueForDetach\<close> faults, and the failures of individual detach
  calls are only logged.
\<close>

lemma QueueForDetach_total:
  "symbol item \<noteq> None \<longrightarrow> original item \<noteq> 0 \<Longrightarrow> \<exists>r. QueueForDetach env p item w = Inr r"
  by (auto simp: QueueForDetach_def split_beta split: option.splits)

lemma Shutdown_loop_total:
  "\<forall>(p, item) \<in> set m_hooks. symbol item \<noteq> None \<longrightarrow> original item \<noteq> 0 \<Longrightarrow>
   \<exists>r. Shutdown_loop env m_hooks count w = Inr r"
proof (induction m_hooks arbitrary: count w)
  case Nil
  then show ?case by simp
next
  case (Cons a m_hooks)
  obtain p item where a: "a = (p, item)" by (cases a)
  with Cons.prems have "symbol item \<noteq> None \<longrightarrow> original item \<noteq> 0" by simp
  then obtain q where "QueueForDetach env p item w = Inr q"
    using QueueForDetach_total by blast
  then obtain queued item1 w1 where q: "QueueForDetach env p item w = Inr (queued, item1, w1)"
    by (cases q) auto
  from Cons.prems have "\<forall>(p, item) \<in> set m_hooks. symbol item \<noteq> None \<longrightarrow> original item \<noteq> 0"
    by simp
  from Cons.IH [OF this]
  obtain r where "Shutdown_loop env m_hooks (if queued then Suc count else count) w1 = Inr r"
    by blast
  with a q show ?case by (cases r) simp
qed

lemma Shutdown_clears:
  assumes "\<forall>(p, item) \<in> set m_hooks. symbol item \<noteq> None \<longrightarrow> original item \<noteq> 0"
  shows "\<exists>w'. Shutdown env m_hooks w = Inr ([], w')"
proof -
  obtain r where "Shutdown_loop env m_hooks 0 (snd (DetourTransaction_ctor env w)) = Inr r"
    using Shutdown_loop_total [OF assms] by blast
  then show ?thesis by (cases r) (simp add: Shutdown_def split_beta)
qed

subsection \<open>The concrete registry calls\<close>

lemma frida_attach_eq:
  "frida_attach = (True,
     [(1, \<lparr>target = 0x1000, symbol = None, original = 0x500,
           hook = \<lparr>hook_address = 0x1000, hook_detour = 0x2000, hook_attached = True\<rparr>\<rparr>)],
     fresh_world\<lparr>g_hookCount := 1, ptr_slots := (\<lambda>a. 0)(0x500 := 0x1000)\<rparr>)"
  by (simp add: frida_attach_def fixture_defs registry_defs tx_defs hooking_defs Let_def)

lemma native_attach_eq:
  "fst native_attach = True \<and> ptr_slots (snd (snd native_attach)) 0x500 = 0x70000000"
  by (simp add: native_attach_def fixture_defs registry_defs tx_defs hooking_defs Let_def
      del: write_bytes.simps)

lemma null_attach_eq:
  "fst null_attach = False \<and> fst (snd null_attach) = [] \<and>
   ptr_slots (snd (snd null_attach)) = ptr_slots fresh_world"
  by (simp add: null_attach_def fixture_defs registry_defs tx_defs hooking_defs Let_def)





lemma nested_attach_eq:
  "nested_attach = (False, [],
     open_world\<lparr>g_hookCount := 1,
       logged := [(LogError, ''Could not start the detour transaction''),
                  (LogWarn, ''The transaction is in an invalid state''),
                  (LogWarn, ''The hook was not attached'')]\<rparr>)"
  by (simp add: nested_attach_def open_world_def fixture_defs registry_defs tx_defs hooking_defs Let_def)

lemma symbol_attached_eq:
  "symbol_attached = (True,
     [(1, \<lparr>target = 0, symbol = Some ''open'', original = 0,
           hook = \<lparr>hook_address = 0, hook_detour = 0x2000, hook_attached = False\<rparr>\<rparr>)],
     fresh_world\<lparr>os_calls := 1\<rparr>)"
  by (simp add: symbol_attached_def fixture_defs registry_defs hooking_defs)

section \<open>The claims\<close>

text \<open>
  Claim C1: for every valid pair of non-null target and detour, a successful attach of a
  function hook followed immediately by a detach restores the bytes at the target to
  their value before the attach.

  The native \<^verbatim>\<open>DetourDetach\<close> does not do so. In the run below the sixteen bytes at the
  target \<open>0x1000\<close> are zero before \<^verbatim>\<open>DetourAttach\<close>; attach and detach both return
  \<^verbatim>\<open>NO_ERROR\<close>, the pointer is set back to the target, and the bytes at the target are
  still the jump to the detour \<open>0x2000\<close>.
\<close>

theorem native_detach_leaves_jump:
  "fst native_attached = NO_ERROR \<and> fst native_detached = NO_ERROR \<and>
   fst (snd native_detached) = 0x1000 \<and>
   read_bytes (code (snd native_tx)) 0x1000 16 = replicate 16 0 \<and>
   read_bytes (code (snd (snd native_detached))) 0x1000 16 = jump_sequence 0x2000 \<and>
   jump_sequence 0x2000 \<noteq> replicate 16 0"
proof -
  have after: "read_bytes (code (snd (snd native_detached))) 0x1000 16 = jump_sequence 0x2000"
    by (simp add: native_detached_eq read_jump_sequence del: write_bytes.simps read_bytes.simps)
  show ?thesis using zero_bytes_before after jump_is_not_zero_bytes
    by (simp add: native_attached_eq native_detached_eq)
qed

text \<open>
  Claim C2: at most one transaction is in the \<open>Started\<close> state at any time; while one is
  open, a second \<^verbatim>\<open>DetourTransactionBegin\<close> fails at once with an error and does not
  change the first transaction's state.

  From a process with no transaction open, after any sequence of creating, committing,
  aborting and destroying transaction objects: at most one object is \<open>Started\<close>; the
  backend has a transaction open exactly when some object is \<open>Started\<close>; and while it
  has, \<^verbatim>\<open>DetourTransactionBegin\<close> returns \<open>-1\<close> and leaves the world as it is, and
  creating another object yields an \<open>Invalid\<close> one, leaves every existing object as it
  is and only adds an error line to the log.
\<close>

theorem single_started_transaction:
  assumes "\<not> g_inTransaction w0" and "tx_run env ops ([], w0) = (objs, w)"
  shows "length (filter is_started objs) \<le> 1 \<and>
         (g_inTransaction w \<longleftrightarrow> (\<exists>x \<in> set objs. is_started x)) \<and>
         (g_inTransaction w \<longrightarrow>
            DetourTransactionBegin env w = (- 1, w) \<and>
            tx_step env Construct (objs, w) =
              (objs @ [Some \<lparr>m_state = Invalid\<rparr>],
               Log_error ''Could not start the detour transaction'' w))"
proof -
  have "tx_inv ([], w0)" using assms(1) by (simp add: tx_inv_def)
  then have "tx_inv (tx_run env ops ([], w0))" by (rule tx_run_inv)
  with assms(2) have inv: "tx_inv (objs, w)" by simp
  then have count: "length (filter is_started objs) = (if g_inTransaction w then 1 else 0)"
    by (simp add: tx_inv_def)
  then have one: "length (filter is_started objs) \<le> 1" by (simp split: if_splits)
  have "g_inTransaction w \<longleftrightarrow> filter is_started objs \<noteq> []"
    using count by (cases "g_inTransaction w") auto
  then have "open": "g_inTransaction w \<longleftrightarrow> (\<exists>x \<in> set objs. is_started x)"
    by (simp add: filter_empty_conv)
  have "g_inTransaction w \<longrightarrow>
      DetourTransactionBegin env w = (- 1, w) \<and>
      tx_step env Construct (objs, w) =
        (objs @ [Some \<lparr>m_state = Invalid\<rparr>],
         Log_error ''Could not start the detour transaction'' w)"
    by (simp add: DetourTransactionBegin_def ctor_cases)
  with one "open" show ?thesis by blast
qed

theorem single_started_transaction_witness:
  "\<not> g_inTransaction fresh_world \<and>
   fst two_transactions = [Some \<lparr>m_state = Started\<rparr>, Some \<lparr>m_state = Invalid\<rparr>] \<and>
   g_inTransaction (snd two_transactions) \<and>
   length (filter is_started (fst two_transactions)) \<le> 1 \<and>
   DetourTransactionBegin frida_env (snd two_transactions) = (- 1, snd two_transactions) \<and>
   fst (tx_step frida_env Construct two_transactions) =
     [Some \<lparr>m_state = Started\<rparr>, Some \<lparr>m_state = Invalid\<rparr>, Some \<lparr>m_state = Invalid\<rparr>]"
proof -
  have h1: "\<not> g_inTransaction fresh_world" by (simp add: fresh_world_def)
  have h2: "tx_run frida_env [Construct, Construct] ([], fresh_world) =
      (fst two_transactions, snd two_transactions)"
    by (simp add: two_transactions_def)
  have objs: "fst two_transactions = [Some \<lparr>m_state = Started\<rparr>, Some \<lparr>m_state = Invalid\<rparr>]"
    by (simp add: two_transactions_eq)
  have "open": "g_inTransaction (snd two_transactions)"
    by (simp add: two_transactions_eq)
  have step: "tx_step frida_env Construct two_transactions =
      tx_step frida_env Construct (fst two_transactions, snd two_transactions)"
    by simp
  from single_started_transaction [OF h1 h2] "open"
  have "length (filter is_started (fst two_transactions)) \<le> 1 \<and>
      DetourTransactionBegin frida_env (snd two_transactions) = (- 1, snd two_transactions) \<and>
      tx_step frida_env Construct (fst two_transactions, snd two_transactions) =
        (fst two_transactions @ [Some \<lparr>m_state = Invalid\<rparr>],
         Log_error ''Could not start the detour transaction'' (snd two_transactions))"
    by simp
  with h1 objs "open" step show ?thesis by simp
qed

text \<open>
  Claim C3: a transaction object that reached \<open>Started\<close> and is destroyed without commit
  or abort is aborted by its destructor, so that afterwards no hook queued inside that
  transaction remains installed.

  The destructor does abort, but in the native build the abort does not take the hook
  out. In the run below the object is \<open>Started\<close>, \<^verbatim>\<open>DetourAttach\<close> succeeds inside the
  transaction, and the object is destroyed: its last state is \<open>Aborted\<close>, the backend
  transaction is closed and the trampoline list is empty, yet the sixteen bytes at the
  target \<open>0x1000\<close>, zero before, are the jump to the detour \<open>0x2000\<close>.
\<close>

theorem native_abort_leaves_jump:
  "m_state (fst native_tx) = Started \<and>
   fst native_attached = NO_ERROR \<and>
   m_state (fst native_abandoned) = Aborted \<and>
   \<not> g_inTransaction (snd native_abandoned) \<and>
   g_trampolines (snd native_abandoned) = [] \<and>
   read_bytes (code (snd native_tx)) 0x1000 16 = replicate 16 0 \<and>
   read_bytes (code (snd native_abandoned)) 0x1000 16 = jump_sequence 0x2000 \<and>
   jump_sequence 0x2000 \<noteq> replicate 16 0"
proof -
  have after: "read_bytes (code (snd native_abandoned)) 0x1000 16 = jump_sequence 0x2000"
    by (simp add: native_abandoned_eq read_jump_sequence del: write_bytes.simps read_bytes.simps)
  have rest: "m_state (fst native_tx) = Started \<and> fst native_attached = NO_ERROR \<and>
      m_state (fst native_abandoned) = Aborted \<and> \<not> g_inTransaction (snd native_abandoned) \<and>
      g_trampolines (snd native_abandoned) = []"
    by (simp add: native_tx_eq native_attached_eq native_abandoned_eq fresh_world_def)
  show ?thesis using zero_bytes_before after jump_is_not_zero_bytes rest by simp
qed

text \<open>
  Claim C4: the \<open>Failed\<close> state is terminal; neither \<open>Commit\<close> nor \<open>Abort\<close> on a
  \<open>Failed\<close> transaction moves it to \<open>Committed\<close> or \<open>Aborted\<close>.

  Both functions let a \<open>Failed\<close> transaction through their state check and call the
  backend again. In the run below the abort of a started object fails, the object is
  \<open>Failed\<close>, and a later \<open>Commit\<close> on it succeeds and leaves it \<open>Committed\<close>.
\<close>

theorem failed_transaction_commits:
  "m_state (fst (DetourTransaction_ctor frida_env fresh_world)) = Started \<and>
   fst failed_tx = False \<and> m_state (fst (snd failed_tx)) = Failed \<and>
   fst failed_tx_committed = True \<and> m_state (fst (snd failed_tx_committed)) = Committed"
  by (simp add: failed_tx_committed_def failed_tx_eq fixture_defs tx_defs hooking_defs)

text \<open>
  Claim C4 as amended: \<open>Failed\<close> is not terminal. \<open>Commit\<close> and \<open>Abort\<close> on a \<open>Failed\<close>
  transaction call the backend again: while the backend has no transaction open they
  return \<open>false\<close> and the object stays \<open>Failed\<close>; when it has one, they return \<open>true\<close>,
  \<open>Commit\<close> moves the object to \<open>Committed\<close> and \<open>Abort\<close> moves it to \<open>Aborted\<close>.
\<close>

theorem failed_transaction_retries:
  "m_state t = Failed \<longrightarrow>
     fst (DetourTransaction_Commit env t w) = g_inTransaction w \<and>
     m_state (fst (snd (DetourTransaction_Commit env t w))) =
       (if g_inTransaction w then Committed else Failed) \<and>
     fst (DetourTransaction_Abort env t w) = g_inTransaction w \<and>
     m_state (fst (snd (DetourTransaction_Abort env t w))) =
       (if g_inTransaction w then Aborted else Failed)"
  by (simp add: tx_defs DetourTransactionCommit_def DetourTransactionAbort_def)

theorem failed_transaction_retries_witness:
  "m_state (fst (snd failed_tx)) = Failed \<and>
   \<not> g_inTransaction (snd (snd failed_tx)) \<and>
   fst (DetourTransaction_Commit frida_env (fst (snd failed_tx)) (snd (snd failed_tx))) = False \<and>
   m_state (fst (snd (DetourTransaction_Commit frida_env (fst (snd failed_tx)) (snd (snd failed_tx))))) =
     Failed \<and>
   fst (DetourTransaction_Abort frida_env (fst (snd failed_tx)) (snd (snd failed_tx))) = False \<and>
   m_state (fst (snd (DetourTransaction_Abort frida_env (fst (snd failed_tx)) (snd (snd failed_tx))))) =
     Failed"
  using failed_transaction_retries [of "fst (snd failed_tx)" frida_env "snd (snd failed_tx)"]
  by (simp add: failed_tx_eq fresh_world_def)

text \<open>
  Claim C5: once the original handler of a slot has returned \<open>true\<close>, every later
  \<open>OnEnter\<close>, \<open>OnUpdate\<close> or \<open>OnExit\<close> on that slot skips the original handler, and this
  lasts exactly until \<open>AttachAt\<close> is called again, which resets the slot's
  \<open>shouldExecute\<close> flag so that the original runs again.

  \<open>AttachAt\<close> does not touch the flag. In the run below the hook is attached, \<open>OnEnter\<close>
  runs the original \<open>0xA3\<close> once, and the hook is detached and attached again: the
  vtable slot holds the detour and the original is captured, but the flag is still
  cleared, and \<open>OnEnter\<close> returns \<open>true\<close> without calling the original.
\<close>

theorem reattach_keeps_suppression:
  "invoked (snd (snd entered)) = [0xA3] \<and>
   ptr_slots (snd reattached) 0x1018 = 0xD3 \<and>
   orig (m_onEnter (fst reattached)) = 0xA3 \<and>
   \<not> shouldExecute (m_onEnter (fst reattached)) \<and>
   OnEnter frida_env (fst reattached) (snd reattached) = (True, fst reattached, snd reattached) \<and>
   invoked (snd reattached) = [0xA3]"
  by (simp add: entered_eq reattached_eq OnEnter_def)

text \<open>
  Claim C5 as amended: once the original handler of a slot has returned \<open>true\<close>, every
  later \<open>OnEnter\<close>, \<open>OnUpdate\<close> or \<open>OnExit\<close> on that slot skips the original handler, and
  this lasts for the rest of the hook object's life: after any further calls on the
  object, \<open>AttachAt\<close> and \<open>DetachAt\<close> included, the flag is still cleared and the call
  returns \<open>true\<close> and changes nothing.
\<close>

theorem suppression_is_permanent:
  assumes "shouldExecute (slot_hook sl h) \<and> orig (slot_hook sl h) \<noteq> 0"
    and "slot_call env sl h w = (True, h1, w1)"
    and "gs_run env ops (h1, w1) = (h2, w2)"
  shows "\<not> shouldExecute (slot_hook sl h2) \<and> slot_call env sl h2 w2 = (True, h2, w2)"
proof -
  from assms(1,2) have "\<not> shouldExecute (slot_hook sl h1)" by (rule slot_call_true_suppresses)
  then have "\<not> shouldExecute (slot_hook sl h2)" using assms(3) by (rule gs_run_keeps_suppressed)
  then show ?thesis by (simp add: slot_call_skip)
qed

theorem suppression_is_permanent_witness:
  "(shouldExecute (slot_hook Enter (fst attached_hook)) \<and>
    orig (slot_hook Enter (fst attached_hook)) \<noteq> 0) \<and>
   slot_call frida_env Enter (fst attached_hook) (snd attached_hook) =
     (True, fst (snd entered), snd (snd entered)) \<and>
   gs_run frida_env [CallDetachAt 0x100, CallAttachAt 0x100] (fst (snd entered), snd (snd entered)) =
     (fst reattached, snd reattached) \<and>
   \<not> shouldExecute (slot_hook Enter (fst reattached)) \<and>
   slot_call frida_env Enter (fst reattached) (snd reattached) = (True, fst reattached, snd reattached)"
proof -
  have h1: "shouldExecute (slot_hook Enter (fst attached_hook)) \<and>
      orig (slot_hook Enter (fst attached_hook)) \<noteq> 0"
    by (simp add: attached_hook_eq)
  have h2: "slot_call frida_env Enter (fst attached_hook) (snd attached_hook) =
      (True, fst (snd entered), snd (snd entered))"
    by (simp add: entered_def [symmetric] entered_eq)
  have h3: "gs_run frida_env [CallDetachAt 0x100, CallAttachAt 0x100]
      (fst (snd entered), snd (snd entered)) = (fst reattached, snd reattached)"
    by (simp add: reattached_def)
  from suppression_is_permanent [OF h1 h2 h3] h1 h2 h3 show ?thesis by simp
qed

text \<open>
  Claim C6: for every call of the registry's \<open>Attach\<close> by address, if the call returns
  failure the caller's output slot is left untouched; only on a successful attach and
  commit is the resolved original address written into it and a record added to the
  registry.

  Let the call's transaction object be the one its constructor yields, and let
  \<^verbatim>\<open>DetourAttach\<close>, run on the target and the detour inside it, return \<open>result\<close> and
  leave \<open>p\<close> in its pointer. The call returns \<open>true\<close> exactly when \<open>result\<close> is
  \<^verbatim>\<open>NO_ERROR\<close> and the transaction's \<open>Commit\<close> then returns \<open>true\<close>. When it returns
  \<open>false\<close>, the hook map and every pointer cell are as before. When it returns \<open>true\<close>,
  exactly one record for the plugin has been added, with the given target, detour and
  output slot and a hook whose address is \<open>p\<close>, and the only pointer cell written is the
  output slot (if it is not null), which holds \<open>p\<close>.
\<close>

theorem attach_writes_slot_only_on_success:
  assumes "Attach env aPlugin aTarget aDetour aOriginal m_hooks w = (ok, m_hooks', w')"
    and "DetourTransaction_ctor env w = (transaction, w1)"
    and "DetourAttach env aTarget aDetour w1 = (result, p, w2)"
  shows "(ok \<longleftrightarrow> result = NO_ERROR \<and> fst (DetourTransaction_Commit env transaction w2)) \<and>
         (\<not> ok \<longrightarrow> m_hooks' = m_hooks \<and> ptr_slots w' = ptr_slots w) \<and>
         (ok \<longrightarrow>
            m_hooks' = m_hooks @
              [(aPlugin, \<lparr>target = aTarget, symbol = None, original = aOriginal,
                          hook = \<lparr>hook_address = p, hook_detour = aDetour, hook_attached = True\<rparr>\<rparr>)] \<and>
            GetAddress (hook (snd (last m_hooks'))) = p \<and>
            ptr_slots w' = (if aOriginal \<noteq> 0 then (ptr_slots w)(aOriginal := p) else ptr_slots w))"
proof -
  have s1: "ptr_slots w1 = ptr_slots w" using assms(2) ctor_slots [of env w] by simp
  have s2: "ptr_slots w2 = ptr_slots w1"
    using assms(3) DetourAttach_slots [of env aTarget aDetour w1] by simp
  show ?thesis
    using assms s1 s2
    by (auto simp: Attach_def Let_def split_beta slots_frame Item_target_def Hook_ctor_def
          Hook_Attach_def GetAddress_def
        split: if_splits bool.splits)
qed

text \<open>
  Three runs: the attach and the commit both succeed; \<^verbatim>\<open>DetourAttach\<close> fails on a null
  target; and \<^verbatim>\<open>DetourAttach\<close> succeeds but the commit is refused, because the backend
  already had a transaction open and the call's own transaction object is \<open>Invalid\<close>.
\<close>

theorem attach_writes_slot_only_on_success_witness:
  "fst frida_attach = True \<and>
   length (fst (snd frida_attach)) = 1 \<and>
   ptr_slots (snd (snd frida_attach)) 0x500 = 0x1000 \<and>
   fst (DetourAttach frida_env 0 0x2000 (snd (DetourTransaction_ctor frida_env fresh_world))) \<noteq>
     NO_ERROR \<and>
   fst null_attach = False \<and>
   fst (snd null_attach) = [] \<and>
   ptr_slots (snd (snd null_attach)) = ptr_slots fresh_world \<and>
   fst (DetourAttach frida_env 0x1000 0x2000 (snd (DetourTransaction_ctor frida_env open_world))) =
     NO_ERROR \<and>
   fst nested_attach = False \<and>
   fst (snd nested_attach) = [] \<and>
   ptr_slots (snd (snd nested_attach)) = ptr_slots open_world"
proof -
  have a: "Attach frida_env 1 0x1000 0x2000 0x500 [] fresh_world =
      (fst frida_attach, fst (snd frida_attach), snd (snd frida_attach))"
    by (simp add: frida_attach_def)
  have a1: "DetourTransaction_ctor frida_env fresh_world =
      (\<lparr>m_state = Started\<rparr>, fresh_world\<lparr>g_inTransaction := True\<rparr>)"
    by (simp add: ctor_cases fresh_world_def)
  have a2: "DetourAttach frida_env 0x1000 0x2000 (fresh_world\<lparr>g_inTransaction := True\<rparr>) =
      (NO_ERROR, 0x1000, fresh_world\<lparr>g_inTransaction := True, g_hookCount := 1\<rparr>)"
    by (simp add: DetourAttach_def DetourAttach_frida_def fixture_defs)
  have b: "Attach frida_env 1 0 0x2000 0x500 [] fresh_world =
      (fst null_attach, fst (snd null_attach), snd (snd null_attach))"
    by (simp add: null_attach_def)
  have b2: "DetourAttach frida_env 0 0x2000 (fresh_world\<lparr>g_inTransaction := True\<rparr>) =
      (- 1, 0, Log_error ''[Hooking] DetourAttach failed: null pointer''
                 (fresh_world\<lparr>g_inTransaction := True\<rparr>))"
    by (simp add: DetourAttach_def DetourAttach_frida_def fixture_defs)
  have c: "Attach frida_env 1 0x1000 0x2000 0x500 [] open_world =
      (fst nested_attach, fst (snd nested_attach), snd (snd nested_attach))"
    by (simp add: nested_attach_def)
  have c1: "DetourTransaction_ctor frida_env open_world =
      (\<lparr>m_state = Invalid\<rparr>, Log_error ''Could not start the detour transaction'' open_world)"
    by (simp add: ctor_cases open_world_def)
  have c2: "DetourAttach frida_env 0x1000 0x2000
        (Log_error ''Could not start the detour transaction'' open_world) =
      (NO_ERROR, 0x1000,
       (Log_error ''Could not start the detour transaction'' open_world)\<lparr>g_hookCount := 1\<rparr>)"
    by (simp add: DetourAttach_def DetourAttach_frida_def fixture_defs open_world_def Log_error_def)
  have ok: "fst frida_attach = True" by (simp add: frida_attach_eq)
  have failed: "fst null_attach = False" by (simp add: null_attach_eq)
  have rejected: "fst nested_attach = False" by (simp add: nested_attach_eq)
  from attach_writes_slot_only_on_success [OF a a1 a2]
    attach_writes_slot_only_on_success [OF b a1 b2]
    attach_writes_slot_only_on_success [OF c c1 c2] ok failed rejected
  show ?thesis by (simp add: a1 b2 c1 c2)
qed

text \<open>
  Claim C7: for every successful \<open>Attach\<close> by address with distinct non-null target and
  detour, the original entry point reported to the caller differs from both the target
  and the detour.

  In the Frida Gadget build \<^verbatim>\<open>DetourAttach\<close> leaves its pointer as it is, on purpose, so
  the address reported is the target itself: in the run below plugin 1 hooks \<open>0x1000\<close>
  with the detour \<open>0x2000\<close>, the call succeeds and the output slot \<open>0x500\<close> holds
  \<open>0x1000\<close>.
\<close>

theorem frida_attach_reports_target:
  "fst frida_attach = True \<and> ptr_slots (snd (snd frida_attach)) 0x500 = 0x1000"
  by (simp add: frida_attach_eq)

text \<open>
  Claim C7 as amended: for every successful \<open>Attach\<close> by address with distinct non-null
  target and detour and a non-null output slot, the original entry point reported to the
  caller is, in the Frida Gadget build, the target address itself (the entry is left
  unpatched), which differs from the detour; in the native build it is the address of
  the trampoline that \<^verbatim>\<open>mmap\<close> returned for this call, which is not \<^verbatim>\<open>MAP_FAILED\<close>.
\<close>

theorem attach_reports_target_or_trampoline:
  assumes "Attach env aPlugin aTarget aDetour aOriginal m_hooks w = (True, m_hooks', w')"
    and "aOriginal \<noteq> 0" and "aTarget \<noteq> aDetour"
  shows "(use_frida_gadget env \<longrightarrow>
            ptr_slots w' aOriginal = aTarget \<and> ptr_slots w' aOriginal \<noteq> aDetour) \<and>
         (\<not> use_frida_gadget env \<longrightarrow>
            ptr_slots w' aOriginal = os_mmap env (os_calls w) \<and> ptr_slots w' aOriginal \<noteq> MAP_FAILED)"
proof -
  from assms(1,2) obtain w1 where
    a: "DetourAttach env aTarget aDetour (snd (DetourTransaction_ctor env w)) =
          (NO_ERROR, ptr_slots w' aOriginal, w1)"
    using Attach_reported by blast
  show ?thesis
  proof (cases "use_frida_gadget env")
    case True
    with a have "DetourAttach_frida aTarget aDetour (snd (DetourTransaction_ctor env w)) =
          (NO_ERROR, ptr_slots w' aOriginal, w1)"
      by (simp add: DetourAttach_def)
    then have "ptr_slots w' aOriginal = aTarget" by (auto dest: DetourAttach_frida_result)
    with True assms(3) show ?thesis by simp
  next
    case False
    with a have "DetourAttach_native env aTarget aDetour (snd (DetourTransaction_ctor env w)) =
          (NO_ERROR, ptr_slots w' aOriginal, w1)"
      by (simp add: DetourAttach_def)
    then have "ptr_slots w' aOriginal = os_mmap env (os_calls (snd (DetourTransaction_ctor env w))) \<and>
        ptr_slots w' aOriginal \<noteq> MAP_FAILED"
      by (auto dest: DetourAttach_native_result)
    with False show ?thesis by (auto simp: ctor_os_calls)
  qed
qed

theorem attach_reports_target_or_trampoline_witness:
  "fst frida_attach = True \<and> use_frida_gadget frida_env \<and>
   ptr_slots (snd (snd frida_attach)) 0x500 = 0x1000 \<and>
   ptr_slots (snd (snd frida_attach)) 0x500 \<noteq> 0x2000 \<and>
   fst native_attach = True \<and> \<not> use_frida_gadget native_env \<and>
   ptr_slots (snd (snd native_attach)) 0x500 = 0x70000000"
proof -
  have a: "Attach frida_env 1 0x1000 0x2000 0x500 [] fresh_world =
      (True, fst (snd frida_attach), snd (snd frida_attach))"
    using frida_attach_eq unfolding frida_attach_def by simp
  have b: "Attach native_env 1 0x1000 0x2000 0x500 [] fresh_world =
      (True, fst (snd native_attach), snd (snd native_attach))"
    using native_attach_eq unfolding native_attach_def by (simp add: prod_eq_iff)
  have c: "(0x500 :: addr) \<noteq> 0" "(0x1000 :: addr) \<noteq> 0x2000" by simp_all
  have builds: "use_frida_gadget frida_env \<and> \<not> use_frida_gadget native_env \<and>
      os_mmap native_env (os_calls fresh_world) = 0x70000000"
    by (simp add: fixture_defs)
  have ok: "fst frida_attach = True" by (simp add: frida_attach_eq)
  from attach_reports_target_or_trampoline [OF a c] attach_reports_target_or_trampoline [OF b c]
    builds native_attach_eq ok
  show ?thesis by simp
qed




text \<open>
  Claim C9: for any registry state with N outstanding hook records across any number of
  owners, \<open>Shutdown\<close> attempts to detach every record inside one final transaction and
  afterwards the hook map is empty, even when some individual detach calls fail.

  Not for a record made by symbol name with a null output slot: \<^verbatim>\<open>QueueForDetach\<close> reads
  through the slot without the null test that \<open>Detach\<close> and \<open>Attach\<close> make. In the run
  below plugin 1 hooks the symbol \<open>open\<close> with a null output slot, which succeeds, and
  \<open>Shutdown\<close> then faults before the map is cleared. (For every registry without such a
  record, \<open>Shutdown_clears\<close> above shows that the map is emptied.)
\<close>

theorem shutdown_faults_on_null_slot:
  "fst symbol_attached = True \<and>
   Shutdown frida_env (fst (snd symbol_attached)) (snd (snd symbol_attached)) =
     Inl NullPointerDereference"
  by (simp add: symbol_attached_eq Shutdown_def QueueForDetach_def ctor_cases fresh_world_def)

text \<open>
  Claim C10: whenever \<open>OnEnter\<close>, \<open>OnUpdate\<close> or \<open>OnExit\<close> skips the original handler,
  because the slot's \<open>shouldExecute\<close> flag is cleared or no original handler was
  captured, it returns \<open>true\<close>; \<open>false\<close> is returned only by forwarding the result of an
  original handler that was called.

  For each of the three slots: when the flag is cleared or the original is null, the call
  returns \<open>true\<close> and changes neither the hook nor the world; and when the call returns
  \<open>false\<close>, the flag was set, the original was not null, the original was called (it is
  the new last entry of \<open>invoked\<close>) and it answered \<open>false\<close>.
\<close>

theorem skipped_call_returns_true:
  "(\<not> (shouldExecute (slot_hook sl h) \<and> orig (slot_hook sl h) \<noteq> 0) \<longrightarrow>
      slot_call env sl h w = (True, h, w)) \<and>
   (fst (slot_call env sl h w) = False \<longrightarrow>
      shouldExecute (slot_hook sl h) \<and> orig (slot_hook sl h) \<noteq> 0 \<and>
      os_handler env (os_calls w) = False \<and>
      invoked (snd (snd (slot_call env sl h w))) = invoked w @ [orig (slot_hook sl h)])"
  using slot_call_skip [of sl h env w] slot_call_false [of env sl h w] by blast

theorem skipped_call_returns_true_witness:
  "\<not> (shouldExecute (slot_hook Enter (fst reattached)) \<and> orig (slot_hook Enter (fst reattached)) \<noteq> 0) \<and>
   slot_call frida_env Enter (fst reattached) (snd reattached) = (True, fst reattached, snd reattached) \<and>
   fst (slot_call refusing_env Exit (fst attached_hook) (snd attached_hook)) = False \<and>
   shouldExecute (slot_hook Exit (fst attached_hook)) \<and>
   invoked (snd (snd (slot_call refusing_env Exit (fst attached_hook) (snd attached_hook)))) = [0xA5]"
proof -
  have skip: "\<not> (shouldExecute (slot_hook Enter (fst reattached)) \<and>
      orig (slot_hook Enter (fst reattached)) \<noteq> 0)"
    by (simp add: reattached_eq)
  have refused: "fst (slot_call refusing_env Exit (fst attached_hook) (snd attached_hook)) = False"
    by (simp add: attached_hook_eq refusing_env_def OnExit_def call_handler_def)
  have nothing_before: "invoked (snd attached_hook) = []"
    by (simp add: attached_hook_eq game_world_def fresh_world_def)
  have orig: "orig (slot_hook Exit (fst attached_hook)) = 0xA5"
    by (simp add: attached_hook_eq)
  from skipped_call_returns_true [of Enter "fst reattached" frida_env "snd reattached"]
    skipped_call_returns_true [of Exit "fst attached_hook" refusing_env "snd attached_hook"]
    skip refused nothing_before orig
  show ?thesis by simp
qed

end
